theory Spec2Isabelle
  imports Complex_Main
begin

section \<open>Numbers\<close>

text \<open>
  The analytics of the options analyzer (\<^verbatim>\<open>Analysis.js\<close>, \<^verbatim>\<open>StrategyForm.js\<close>) compute on
  JavaScript numbers. Two number types are used here.

  \<^item> Quantities that the code only adds, subtracts, multiplies, compares and takes
    \<^verbatim>\<open>Math.max\<close>/\<^verbatim>\<open>Math.min\<close> of (prices, strikes, premiums, quantities, reported
    payoffs, loop counters) are finite whenever the leg fields are, and are modelled as
    \<^typ>\<open>real\<close>.
  \<^item> Quantities that pass through a division, \<^verbatim>\<open>Math.log\<close>, \<^verbatim>\<open>Math.sqrt\<close> or \<^verbatim>\<open>Math.exp\<close>
    (the Greeks, the risk/reward ratio, the risk score), and the quantities that a
    rounded operation may carry to an infinity (the tested payoffs), may be \<^verbatim>\<open>Infinity\<close>,
    \<^verbatim>\<open>-Infinity\<close> or \<^verbatim>\<open>NaN\<close>; they are modelled by the type \<open>jsnum\<close> below, whose
    operations follow the IEEE 754 rules for the special values.

  Where the code reports a number (a Greek, a maximum profit, a ratio, a score), finite
  arithmetic is exact: the reported value differs from the program's by binary64 rounding
  only, and overflow is not modelled. Where the code tests a number to decide what it
  lists or counts (the breakeven test, the profit test of a trial), the number and the
  test are modelled in binary64, every operation rounded to nearest, ties to even, as
  the program computes it; the counter of the one loop whose steps are rounded, the loop
  over volatilities, is modelled both ways. Zero carries no sign (a division of
  a non-zero number by zero takes the zero as \<^verbatim>\<open>+0\<close>, which is what \<^verbatim>\<open>Math.abs\<close>,
  \<^verbatim>\<open>Math.sqrt\<close> and products of non-negative numbers deliver; no comparison tells the two
  zeros apart).
\<close>

datatype jsnum = Num real | PosInf | NegInf | NaN

text \<open>Division: a finite non-zero number over zero is an infinity, \<^verbatim>\<open>0 / 0\<close> is \<^verbatim>\<open>NaN\<close>.\<close>

fun js_divide :: "jsnum \<Rightarrow> jsnum \<Rightarrow> jsnum" where
  "js_divide (Num a) (Num b) =
     (if b = 0 then (if a = 0 then NaN else if 0 < a then PosInf else NegInf)
      else Num (a / b))"
| "js_divide NaN y = NaN"
| "js_divide x NaN = NaN"
| "js_divide (Num a) PosInf = Num 0"
| "js_divide (Num a) NegInf = Num 0"
| "js_divide PosInf (Num b) = (if 0 \<le> b then PosInf else NegInf)"
| "js_divide NegInf (Num b) = (if 0 \<le> b then NegInf else PosInf)"
| "js_divide PosInf PosInf = NaN"
| "js_divide PosInf NegInf = NaN"
| "js_divide NegInf PosInf = NaN"
| "js_divide NegInf NegInf = NaN"

instantiation jsnum :: "{plus, minus, uminus, times, inverse}"
begin

fun plus_jsnum :: "jsnum \<Rightarrow> jsnum \<Rightarrow> jsnum" where
  "Num a + Num b = Num (a + b)"
| "NaN + y = NaN"
| "x + NaN = NaN"
| "PosInf + NegInf = NaN"
| "NegInf + PosInf = NaN"
| "PosInf + y = PosInf"
| "x + PosInf = PosInf"
| "NegInf + y = NegInf"
| "x + NegInf = NegInf"

fun uminus_jsnum :: "jsnum \<Rightarrow> jsnum" where
  "- Num a = Num (- a)"
| "- PosInf = NegInf"
| "- NegInf = PosInf"
| "- NaN = NaN"

definition minus_jsnum :: "jsnum \<Rightarrow> jsnum \<Rightarrow> jsnum" where
  "x - y = x + (- y)" for x y :: jsnum

fun times_jsnum :: "jsnum \<Rightarrow> jsnum \<Rightarrow> jsnum" where
  "Num a * Num b = Num (a * b)"
| "NaN * y = NaN"
| "x * NaN = NaN"
| "Num a * PosInf = (if a = 0 then NaN else if 0 < a then PosInf else NegInf)"
| "Num a * NegInf = (if a = 0 then NaN else if 0 < a then NegInf else PosInf)"
| "PosInf * Num b = (if b = 0 then NaN else if 0 < b then PosInf else NegInf)"
| "NegInf * Num b = (if b = 0 then NaN else if 0 < b then NegInf else PosInf)"
| "PosInf * PosInf = PosInf"
| "PosInf * NegInf = NegInf"
| "NegInf * PosInf = NegInf"
| "NegInf * NegInf = PosInf"

definition divide_jsnum :: "jsnum \<Rightarrow> jsnum \<Rightarrow> jsnum" where
  "divide_jsnum = js_divide"

definition inverse_jsnum :: "jsnum \<Rightarrow> jsnum" where
  "inverse_jsnum x = js_divide (Num 1) x"

instance ..

end

text \<open>\<^verbatim>\<open>x >= y\<close> on numbers: false as soon as one side is \<^verbatim>\<open>NaN\<close>.\<close>

fun js_ge :: "jsnum \<Rightarrow> jsnum \<Rightarrow> bool" where
  "js_ge (Num a) (Num b) = (b \<le> a)"
| "js_ge NaN y = False"
| "js_ge x NaN = False"
| "js_ge PosInf y = True"
| "js_ge x NegInf = True"
| "js_ge x PosInf = False"
| "js_ge NegInf y = False"

fun Math_abs :: "jsnum \<Rightarrow> jsnum" where
  "Math_abs (Num a) = Num \<bar>a\<bar>"
| "Math_abs PosInf = PosInf"
| "Math_abs NegInf = PosInf"
| "Math_abs NaN = NaN"

fun Math_sqrt :: "jsnum \<Rightarrow> jsnum" where
  "Math_sqrt (Num a) = (if a < 0 then NaN else Num (sqrt a))"
| "Math_sqrt PosInf = PosInf"
| "Math_sqrt NegInf = NaN"
| "Math_sqrt NaN = NaN"

fun Math_log :: "jsnum \<Rightarrow> jsnum" where
  "Math_log (Num a) = (if a < 0 then NaN else if a = 0 then NegInf else Num (ln a))"
| "Math_log PosInf = PosInf"
| "Math_log NegInf = NaN"
| "Math_log NaN = NaN"

fun Math_exp :: "jsnum \<Rightarrow> jsnum" where
  "Math_exp (Num a) = Num (exp a)"
| "Math_exp PosInf = PosInf"
| "Math_exp NegInf = Num 0"
| "Math_exp NaN = NaN"

fun Math_max :: "jsnum \<Rightarrow> jsnum \<Rightarrow> jsnum" where
  "Math_max (Num a) (Num b) = Num (max a b)"
| "Math_max NaN y = NaN"
| "Math_max x NaN = NaN"
| "Math_max PosInf y = PosInf"
| "Math_max x PosInf = PosInf"
| "Math_max NegInf y = y"
| "Math_max x NegInf = x"

fun Math_min :: "jsnum \<Rightarrow> jsnum \<Rightarrow> jsnum" where
  "Math_min (Num a) (Num b) = Num (min a b)"
| "Math_min NaN y = NaN"
| "Math_min x NaN = NaN"
| "Math_min NegInf y = NegInf"
| "Math_min x NegInf = NegInf"
| "Math_min PosInf y = y"
| "Math_min x PosInf = x"

section \<open>Binary64 arithmetic\<close>

text \<open>
  Rounding of a real number to binary64, to nearest with ties to even: 53 significant bits
  in the normal range, multiples of \<open>2\<^sup>-\<^sup>1\<^sup>0\<^sup>7\<^sup>4\<close> below it. \<open>binary64\<close> is the rounding
  with an unbounded exponent; \<open>fl64\<close> adds the overflow to an infinity, which takes place
  when the magnitude so rounded reaches \<open>2\<^sup>1\<^sup>0\<^sup>2\<^sup>4\<close>. An operation of the program on
  Numbers is the exact operation of \<open>jsnum\<close> followed by \<open>round64\<close>.
\<close>

definition round_even :: "real \<Rightarrow> int" where
  "round_even x =
     (let n = \<lfloor>x\<rfloor>; f = x - of_int n
      in if f < 1 / 2 then n else if 1 / 2 < f then n + 1 else if even n then n else n + 1)"

definition binary64 :: "real \<Rightarrow> real" where
  "binary64 x =
     (if x = 0 then 0
      else sgn x *
        (of_int (round_even (\<bar>x\<bar> / 2 powr of_int (max \<lfloor>log 2 \<bar>x\<bar>\<rfloor> (- 1022) - 52)))
         * 2 powr of_int (max \<lfloor>log 2 \<bar>x\<bar>\<rfloor> (- 1022) - 52)))"

definition fl64 :: "real \<Rightarrow> jsnum" where
  "fl64 x =
     (if 2 ^ 1024 \<le> \<bar>binary64 x\<bar> then (if 0 < x then PosInf else NegInf)
      else Num (binary64 x))"

fun round64 :: "jsnum \<Rightarrow> jsnum" where
  "round64 (Num x) = fl64 x"
| "round64 PosInf = PosInf"
| "round64 NegInf = NegInf"
| "round64 NaN = NaN"

text \<open>\<^verbatim>\<open>x < y\<close> and \<^verbatim>\<open>x > y\<close> on numbers: false as soon as one side is \<^verbatim>\<open>NaN\<close>.\<close>

fun js_lt :: "jsnum \<Rightarrow> jsnum \<Rightarrow> bool" where
  "js_lt (Num a) (Num b) = (a < b)"
| "js_lt NaN y = False"
| "js_lt x NaN = False"
| "js_lt x NegInf = False"
| "js_lt PosInf y = False"
| "js_lt NegInf y = True"
| "js_lt x PosInf = True"

definition js_gt :: "jsnum \<Rightarrow> jsnum \<Rightarrow> bool" where
  "js_gt x y = js_lt y x"

section \<open>Data model\<close>

text \<open>
  A leg is the object that \<^verbatim>\<open>StrategyForm\<close> edits as \<^verbatim>\<open>formData\<close> and hands over, with an
  \<^verbatim>\<open>id\<close> added, as \<^verbatim>\<open>strategyOption\<close>; \<^verbatim>\<open>Analysis\<close> reads it as an element of
  \<^verbatim>\<open>strategy.options\<close>. The fields \<^verbatim>\<open>type\<close> and \<^verbatim>\<open>action\<close> are the two-valued strings of the
  form's pickers; every test in the code is \<^verbatim>\<open>=== 'call'\<close> or \<^verbatim>\<open>=== 'buy'\<close> with the other
  value in the else branch. \<^verbatim>\<open>volatility\<close> may be absent (\<open>None\<close>), which is what the
  defaults in \<^verbatim>\<open>Analysis.js\<close> are for.
\<close>

datatype optionType = Call | Put

datatype optionAction = Buy | Sell

record formData =
  strike :: real
  type :: optionType
  action :: optionAction
  quantity :: real
  premium :: real
  expiration :: string
  volatility :: "real option"

record strategyOption = formData +
  option_id :: int

record strategy =
  options :: "strategyOption list option"

record 'a Greeks =
  delta :: 'a
  gamma :: 'a
  theta :: 'a
  vega :: 'a
  rho :: 'a

text \<open>
  The state \<^verbatim>\<open>analysisData\<close> of the \<^verbatim>\<open>Analysis\<close> component. The initial \<^verbatim>\<open>greeks: {}\<close> is
  \<open>None\<close>. A point \<^verbatim>\<open>{days, theta}\<close> of \<^verbatim>\<open>timeDecay\<close> and a point \<^verbatim>\<open>{volatility, vega}\<close> of
  \<^verbatim>\<open>volatilityImpact\<close> are pairs.
\<close>

record analysisData =
  greeks :: "jsnum Greeks option"
  breakeven :: "real list"
  maxProfit :: real
  maxLoss :: real
  probabilityOfProfit :: real
  riskReward :: jsnum
  timeDecay :: "(real \<times> jsnum) list"
  volatilityImpact :: "(real \<times> jsnum) list"

section \<open>Payoff and the price sweeps\<close>

text \<open>
  The per-leg payoff and its quantity-weighted accumulation over \<^verbatim>\<open>options.forEach\<close> are
  written out four times in \<^verbatim>\<open>Analysis.js\<close> with the same text (in \<^verbatim>\<open>calculateBreakeven\<close>,
  \<^verbatim>\<open>calculateMaxProfit\<close>, \<^verbatim>\<open>calculateMaxLoss\<close> and \<^verbatim>\<open>calculateProbabilityOfProfit\<close>, under
  the local names \<^verbatim>\<open>optionPayoff\<close>/\<^verbatim>\<open>payoff\<close>, \<^verbatim>\<open>optionProfit\<close>/\<^verbatim>\<open>profit\<close>,
  \<^verbatim>\<open>optionLoss\<close>/\<^verbatim>\<open>loss\<close>, \<^verbatim>\<open>optionPayoff\<close>/\<^verbatim>\<open>totalPayoff\<close>). The two sweeps for the
  maximum profit and the maximum loss report the payoff; for them it is modelled as the
  exact sum, \<open>optionPayoff\<close> and \<open>totalPayoff\<close>. The breakeven sweep and the trials of the
  probability of profit test the payoff; for them it is modelled as the program computes
  it, \<open>optionPayoff64\<close> and \<open>totalPayoff64\<close>, with each subtraction, product and sum rounded.
\<close>

definition optionPayoff :: "strategyOption \<Rightarrow> real \<Rightarrow> real" where
  "optionPayoff option price =
     (if type option = Call then
        (if action option = Buy then max 0 (price - strike option) - premium option
         else premium option - max 0 (price - strike option))
      else
        (if action option = Buy then max 0 (strike option - price) - premium option
         else premium option - max 0 (strike option - price)))"

definition totalPayoff :: "strategyOption list \<Rightarrow> real \<Rightarrow> real" where
  "totalPayoff opts price =
     foldl (\<lambda>payoff option. payoff + optionPayoff option price * quantity option) 0 opts"

text \<open>The same in binary64. \<^verbatim>\<open>Math.max\<close> returns one of its arguments and does not round.\<close>

definition optionPayoff64 :: "strategyOption \<Rightarrow> jsnum \<Rightarrow> jsnum" where
  "optionPayoff64 option price =
     (if type option = Call then
        (if action option = Buy
         then round64 (Math_max (Num 0) (round64 (price - Num (strike option)))
                        - Num (premium option))
         else round64 (Num (premium option)
                        - Math_max (Num 0) (round64 (price - Num (strike option)))))
      else
        (if action option = Buy
         then round64 (Math_max (Num 0) (round64 (Num (strike option) - price))
                        - Num (premium option))
         else round64 (Num (premium option)
                        - Math_max (Num 0) (round64 (Num (strike option) - price)))))"

definition totalPayoff64 :: "strategyOption list \<Rightarrow> jsnum \<Rightarrow> jsnum" where
  "totalPayoff64 opts price =
     foldl (\<lambda>payoff option.
              round64 (payoff + round64 (optionPayoff64 option price * Num (quantity option))))
       (Num 0) opts"

text \<open>\<^verbatim>\<open>for (let price = 50; price <= 250; price += 0.5)\<close> of \<^verbatim>\<open>calculateBreakeven\<close>, with the
  test \<^verbatim>\<open>Math.abs(payoff) < 0.01\<close> on the payoff and the literal as the program holds them.
  The counter takes multiples of 0.5 only, which binary64 adds without rounding. The
  \<^verbatim>\<open>totalPremium\<close> computed before the loop is never read and is left out.\<close>

function breakeven_loop :: "strategyOption list \<Rightarrow> real \<Rightarrow> real list \<Rightarrow> real list" where
  "breakeven_loop opts price breakevens =
     (if price \<le> 250
      then breakeven_loop opts (price + 0.5)
             (if js_lt (Math_abs (totalPayoff64 opts (Num price))) (Num (binary64 0.01))
              then breakevens @ [price] else breakevens)
      else breakevens)"
  by pat_completeness auto
termination
  by (relation "measure (\<lambda>(opts, price, breakevens). nat \<lceil>(251 - price) * 2\<rceil>)")
    (auto, linarith)

definition calculateBreakeven :: "strategyOption list \<Rightarrow> real list" where
  "calculateBreakeven opts = breakeven_loop opts 50 []"

text \<open>\<^verbatim>\<open>for (let price = 50; price <= 250; price += 1)\<close> of \<^verbatim>\<open>calculateMaxProfit\<close>.\<close>

function maxProfit_loop :: "strategyOption list \<Rightarrow> real \<Rightarrow> real \<Rightarrow> real" where
  "maxProfit_loop opts price maxProfit' =
     (if price \<le> 250
      then maxProfit_loop opts (price + 1) (max maxProfit' (totalPayoff opts price))
      else maxProfit')"
  by pat_completeness auto
termination
  by (relation "measure (\<lambda>(opts, price, maxProfit'). nat \<lceil>251 - price\<rceil>)") (auto, linarith)

definition calculateMaxProfit :: "strategyOption list \<Rightarrow> real" where
  "calculateMaxProfit opts = maxProfit_loop opts 50 0"

function maxLoss_loop :: "strategyOption list \<Rightarrow> real \<Rightarrow> real \<Rightarrow> real" where
  "maxLoss_loop opts price maxLoss' =
     (if price \<le> 250
      then maxLoss_loop opts (price + 1) (min maxLoss' (totalPayoff opts price))
      else maxLoss')"
  by pat_completeness auto
termination
  by (relation "measure (\<lambda>(opts, price, maxLoss'). nat \<lceil>251 - price\<rceil>)") (auto, linarith)

definition calculateMaxLoss :: "strategyOption list \<Rightarrow> real" where
  "calculateMaxLoss opts = maxLoss_loop opts 50 0"

declare breakeven_loop.simps [simp del]
declare maxProfit_loop.simps [simp del]
declare maxLoss_loop.simps [simp del]

section \<open>Probability of profit\<close>

text \<open>
  \<^verbatim>\<open>Math.random()\<close> is the only source of randomness. The sequence \<open>random\<close> gives the value
  returned by its \<open>i\<close>-th call inside \<^verbatim>\<open>calculateProbabilityOfProfit\<close>; the loop body calls
  it once, so trial \<open>i\<close> reads \<open>random i\<close>.

  The price of a trial decides a test, so it is computed in binary64, in the order of
  the source: \<^verbatim>\<open>currentPrice * Math.exp((Math.random() - 0.5) * volatility *
  Math.sqrt(timeToExpiry) * 2)\<close> with \<^verbatim>\<open>volatility = 0.2\<close> and \<^verbatim>\<open>timeToExpiry = 30 / 365\<close>.
  \<^verbatim>\<open>Math.sqrt\<close> returns the rounded square root. \<^verbatim>\<open>Math.exp\<close> is left to the engine by the
  language (an approximation of the exponential, not always the nearest number): it is
  the parameter \<open>exp64\<close>.
\<close>

definition randomPrice64 :: "(jsnum \<Rightarrow> jsnum) \<Rightarrow> real \<Rightarrow> real \<Rightarrow> jsnum" where
  "randomPrice64 exp64 currentPrice u =
     (let volatility' = Num (binary64 0.2);
          timeToExpiry = round64 (Num 30 / Num 365)
      in round64 (Num currentPrice *
           exp64 (round64 (round64 (round64 (round64 (Num u - Num 0.5) * volatility')
                                      * round64 (Math_sqrt timeToExpiry))
                            * Num 2))))"

function pop_loop ::
  "(jsnum \<Rightarrow> jsnum) \<Rightarrow> strategyOption list \<Rightarrow> real \<Rightarrow> (nat \<Rightarrow> real) \<Rightarrow> nat \<Rightarrow> nat \<Rightarrow> nat" where
  "pop_loop exp64 opts currentPrice random i profitableOutcomes =
     (if i < 1000
      then pop_loop exp64 opts currentPrice random (i + 1)
             (if js_gt (totalPayoff64 opts (randomPrice64 exp64 currentPrice (random i))) (Num 0)
              then profitableOutcomes + 1 else profitableOutcomes)
      else profitableOutcomes)"
  by pat_completeness auto
termination
  by (relation
      "measure (\<lambda>(exp64, opts, currentPrice, random, i, profitableOutcomes). 1000 - i)") auto

text \<open>The result \<^verbatim>\<open>(profitableOutcomes / numSimulations) * 100\<close> is a reported number.\<close>

definition calculateProbabilityOfProfit ::
  "(jsnum \<Rightarrow> jsnum) \<Rightarrow> strategyOption list \<Rightarrow> real \<Rightarrow> (nat \<Rightarrow> real) \<Rightarrow> real" where
  "calculateProbabilityOfProfit exp64 opts currentPrice random =
     (real (pop_loop exp64 opts currentPrice random 0 0) / 1000) * 100"

declare pop_loop.simps [simp del]

section \<open>Black-Scholes Greeks\<close>

text \<open>The three local helpers of \<^verbatim>\<open>calculateBlackScholesGreeks\<close>; none reads a variable of
  the enclosing function.\<close>

definition erf :: "jsnum \<Rightarrow> jsnum" where
  "erf x0 =
     (let a1 = Num 0.254829592;
          a2 = Num (- 0.284496736);
          a3 = Num 1.421413741;
          a4 = Num (- 1.453152027);
          a5 = Num 1.061405429;
          p = Num 0.3275911;
          sign = (if js_ge x0 (Num 0) then Num 1 else Num (- 1));
          x = Math_abs x0;
          t = Num 1 / (Num 1 + p * x);
          y = Num 1 - (((((a5 * t + a4) * t) + a3) * t + a2) * t + a1) * t * Math_exp (- x * x)
      in sign * y)"

definition normCDF :: "jsnum \<Rightarrow> jsnum" where
  "normCDF x = Num 0.5 * (Num 1 + erf (x / Math_sqrt (Num 2)))"

definition normPDF :: "jsnum \<Rightarrow> jsnum" where
  "normPDF x = Math_exp (Num (- 0.5) * x * x) / Math_sqrt (Num 2 * Num pi)"

definition calculateBlackScholesGreeks ::
  "jsnum \<Rightarrow> jsnum \<Rightarrow> jsnum \<Rightarrow> jsnum \<Rightarrow> jsnum \<Rightarrow> optionType \<Rightarrow> jsnum Greeks" where
  "calculateBlackScholesGreeks S K T r sigma optionType =
     (let d1 = (Math_log (S / K) + (r + Num 0.5 * sigma * sigma) * T) / (sigma * Math_sqrt T);
          d2 = d1 - sigma * Math_sqrt T;
          delta' = (if optionType = Call then normCDF d1 else normCDF d1 - Num 1);
          theta' = (if optionType = Call
                    then - (S * normPDF d1 * sigma) / (Num 2 * Math_sqrt T)
                           - r * K * Math_exp (- r * T) * normCDF d2
                    else - (S * normPDF d1 * sigma) / (Num 2 * Math_sqrt T)
                           + r * K * Math_exp (- r * T) * normCDF (- d2));
          rho' = (if optionType = Call
                  then K * T * Math_exp (- r * T) * normCDF d2
                  else - K * T * Math_exp (- r * T) * normCDF (- d2));
          gamma' = normPDF d1 / (S * sigma * Math_sqrt T);
          vega' = S * normPDF d1 * Math_sqrt T
      in \<lparr>delta = delta', gamma = gamma', theta = theta' / Num 365,
          vega = vega' / Num 100, rho = rho' / Num 100\<rparr>)"

text \<open>\<^verbatim>\<open>(action === 'buy' ? 1 : -1) * quantity\<close>.\<close>

definition multiplier :: "strategyOption \<Rightarrow> jsnum" where
  "multiplier option = (if action option = Buy then Num 1 else Num (- 1)) * Num (quantity option)"

text \<open>The body of \<^verbatim>\<open>options.forEach\<close> in \<^verbatim>\<open>calculateGreeks\<close>. The destructuring default
  \<^verbatim>\<open>volatility = 0.2\<close> applies to an absent field only.\<close>

definition calculateGreeks_step :: "real \<Rightarrow> jsnum Greeks \<Rightarrow> strategyOption \<Rightarrow> jsnum Greeks" where
  "calculateGreeks_step spotPrice tot option =
     (let vol = (case volatility option of None \<Rightarrow> 0.2 | Some v \<Rightarrow> v);
          timeToExpiry = Num 30 / Num 365;
          riskFreeRate = Num 0.05;
          g = calculateBlackScholesGreeks (Num spotPrice) (Num (strike option)) timeToExpiry
                riskFreeRate (Num vol) (type option)
      in \<lparr>delta = delta tot + delta g * multiplier option,
          gamma = gamma tot + gamma g * multiplier option,
          theta = theta tot + theta g * multiplier option,
          vega = vega tot + vega g * multiplier option,
          rho = rho tot + rho g * multiplier option\<rparr>)"

definition calculateGreeks :: "strategyOption list \<Rightarrow> real \<Rightarrow> jsnum Greeks" where
  "calculateGreeks opts spotPrice =
     foldl (calculateGreeks_step spotPrice)
       \<lparr>delta = Num 0, gamma = Num 0, theta = Num 0, vega = Num 0, rho = Num 0\<rparr> opts"

section \<open>Sensitivity projections\<close>

text \<open>In \<^verbatim>\<open>calculateTimeDecay\<close> the volatility is \<^verbatim>\<open>option.volatility || 0.2\<close>: absent and zero
  both become 0.2.\<close>

definition timeDecay_volatility :: "strategyOption \<Rightarrow> real" where
  "timeDecay_volatility option =
     (case volatility option of None \<Rightarrow> 0.2 | Some v \<Rightarrow> if v = 0 then 0.2 else v)"

text \<open>The inner \<^verbatim>\<open>options.forEach\<close> of \<^verbatim>\<open>calculateTimeDecay\<close>, for one \<^verbatim>\<open>timeToExpiry\<close>.\<close>

definition totalTheta :: "strategyOption list \<Rightarrow> real \<Rightarrow> jsnum \<Rightarrow> jsnum" where
  "totalTheta opts currentPrice timeToExpiry =
     foldl (\<lambda>tot option.
         tot + theta (calculateBlackScholesGreeks (Num currentPrice) (Num (strike option))
                   timeToExpiry (Num 0.05) (Num (timeDecay_volatility option)) (type option))
               * multiplier option)
       (Num 0) opts"

text \<open>\<^verbatim>\<open>for (let days = 30; days >= 0; days--)\<close>.\<close>

function timeDecay_loop ::
  "strategyOption list \<Rightarrow> real \<Rightarrow> int \<Rightarrow> (real \<times> jsnum) list \<Rightarrow> (real \<times> jsnum) list" where
  "timeDecay_loop opts currentPrice days timeDecayData =
     (if days \<ge> 0
      then timeDecay_loop opts currentPrice (days - 1)
             (timeDecayData @
                [(of_int (30 - days), totalTheta opts currentPrice (Num (of_int days) / Num 365))])
      else timeDecayData)"
  by pat_completeness auto
termination
  by (relation "measure (\<lambda>(opts, currentPrice, days, timeDecayData). nat (days + 1))") auto

definition calculateTimeDecay :: "strategyOption list \<Rightarrow> real \<Rightarrow> (real \<times> jsnum) list" where
  "calculateTimeDecay opts currentPrice = timeDecay_loop opts currentPrice 30 []"

text \<open>The inner \<^verbatim>\<open>options.forEach\<close> of \<^verbatim>\<open>calculateVolatilityImpact\<close>, for one \<^verbatim>\<open>vol\<close>.\<close>

definition totalVega :: "strategyOption list \<Rightarrow> real \<Rightarrow> real \<Rightarrow> jsnum" where
  "totalVega opts spotPrice vol =
     foldl (\<lambda>tot option.
         tot + vega (calculateBlackScholesGreeks (Num spotPrice) (Num (strike option))
                   (Num 30 / Num 365) (Num 0.05) (Num vol) (type option)) * multiplier option)
       (Num 0) opts"

text \<open>\<^verbatim>\<open>for (let vol = 0.1; vol <= 0.5; vol += 0.05)\<close>.\<close>

function volImpact_loop ::
  "strategyOption list \<Rightarrow> real \<Rightarrow> real \<Rightarrow> (real \<times> jsnum) list \<Rightarrow> (real \<times> jsnum) list" where
  "volImpact_loop opts spotPrice vol volImpactData =
     (if vol \<le> 0.5
      then volImpact_loop opts spotPrice (vol + 0.05)
             (volImpactData @ [(vol * 100, totalVega opts spotPrice vol)])
      else volImpactData)"
  by pat_completeness auto
termination
  by (relation "measure (\<lambda>(opts, spotPrice, vol, volImpactData). nat \<lceil>11 - 20 * vol\<rceil>)")
    (auto, linarith)

definition calculateVolatilityImpact :: "strategyOption list \<Rightarrow> real \<Rightarrow> (real \<times> jsnum) list" where
  "calculateVolatilityImpact opts spotPrice = volImpact_loop opts spotPrice 0.1 []"

declare timeDecay_loop.simps [simp del]
declare volImpact_loop.simps [simp del]

section \<open>The volatility loop in binary64\<close>

text \<open>
  The counter of every other loop takes values that binary64 represents exactly (integers
  and multiples of 0.5). The counter of \<^verbatim>\<open>calculateVolatilityImpact\<close> does not: neither 0.1
  nor 0.05 is a binary fraction, and each \<^verbatim>\<open>vol += 0.05\<close> rounds. To see that the rounding
  does not change the number of samples, the loop counter is modelled a second time,
  with every literal and every sum rounded by \<open>binary64\<close>.
\<close>

text \<open>The literals \<^verbatim>\<open>0.1\<close>, \<^verbatim>\<open>0.05\<close> and \<^verbatim>\<open>0.5\<close> of the loop head.\<close>

definition vol_start :: real where
  "vol_start = binary64 0.1"

definition vol_step :: real where
  "vol_step = binary64 0.05"

definition vol_bound :: real where
  "vol_bound = binary64 0.5"

text \<open>The values of \<^verbatim>\<open>vol\<close> for which the loop body runs, in order. The loop is not known to
  end beforehand, so not returning is the value \<open>None\<close>.\<close>

partial_function (option) volatility_loop64 :: "real \<Rightarrow> real list \<Rightarrow> real list option" where
  "volatility_loop64 vol vols =
     (if vol \<le> vol_bound
      then volatility_loop64 (binary64 (vol + vol_step)) (vols @ [vol])
      else Some vols)"

section \<open>The analysis, the risk score and the strategy type\<close>

definition calculateAnalysis ::
  "(jsnum \<Rightarrow> jsnum) \<Rightarrow> strategyOption list \<Rightarrow> real \<Rightarrow> (nat \<Rightarrow> real) \<Rightarrow> analysisData" where
  "calculateAnalysis exp64 opts currentPrice random =
     (let analysis =
        \<lparr>greeks = Some (calculateGreeks opts currentPrice),
         breakeven = calculateBreakeven opts,
         maxProfit = calculateMaxProfit opts,
         maxLoss = calculateMaxLoss opts,
         probabilityOfProfit = calculateProbabilityOfProfit exp64 opts currentPrice random,
         riskReward = Num 0,
         timeDecay = calculateTimeDecay opts currentPrice,
         volatilityImpact = calculateVolatilityImpact opts currentPrice\<rparr>
      in analysis\<lparr>riskReward := Num (maxProfit analysis) / Math_abs (Num (maxLoss analysis))\<rparr>)"

text \<open>\<^verbatim>\<open>calculateRiskScore\<close> reads the component state \<^verbatim>\<open>analysisData\<close>.\<close>

definition calculateRiskScore :: "analysisData \<Rightarrow> jsnum" where
  "calculateRiskScore a =
     (let maxLossPercent = Math_abs (Num (maxLoss a)) / Num 1000;
          profitProbability = Num (probabilityOfProfit a) / Num 100;
          riskReward' = Math_min (riskReward a) (Num 3)
      in Math_min (Num 10)
           ((maxLossPercent * Num 3) +
            ((Num 1 - profitProbability) * Num 4) +
            (Math_max (Num 0) (Num 2 - riskReward') * Num 2)))"

definition determineStrategyType :: "strategy option \<Rightarrow> string" where
  "determineStrategyType strat =
     (case strat of None \<Rightarrow> ''Unknown''
      | Some s \<Rightarrow>
        (case options s of None \<Rightarrow> ''Unknown''
         | Some opts \<Rightarrow>
           (let callOptions = filter (\<lambda>opt. type opt = Call) opts;
                putOptions = filter (\<lambda>opt. type opt = Put) opts;
                buyOptions = filter (\<lambda>opt. action opt = Buy) opts;
                sellOptions = filter (\<lambda>opt. action opt = Sell) opts
            in if length opts = 1 then
                 (if length buyOptions = 1
                  then (if length callOptions = 1 then ''Long Call'' else ''Long Put'')
                  else (if length callOptions = 1 then ''Short Call'' else ''Short Put''))
               else if length opts = 2 then
                 (if length callOptions = 2 then ''Call Spread''
                  else if length putOptions = 2 then ''Put Spread''
                  else ''Straddle/Strangle'')
               else ''Complex Strategy'')))"

section \<open>The Analysis component\<close>

text \<open>The initial value given to \<^verbatim>\<open>useState\<close>.\<close>

definition initialAnalysisData :: analysisData where
  "initialAnalysisData =
     \<lparr>greeks = None, breakeven = [], maxProfit = 0, maxLoss = 0, probabilityOfProfit = 0,
      riskReward = Num 0, timeDecay = [], volatilityImpact = []\<rparr>"

text \<open>
  The effect of \<^verbatim>\<open>useEffect\<close>: \<^verbatim>\<open>calculateAnalysis\<close> runs, and replaces the state, only if
  \<^verbatim>\<open>strategy && strategy.options && strategy.options.length > 0\<close>; otherwise the state is
  left as it is.
\<close>

definition useEffect ::
  "(jsnum \<Rightarrow> jsnum) \<Rightarrow> strategy option \<Rightarrow> real \<Rightarrow> (nat \<Rightarrow> real) \<Rightarrow> analysisData
     \<Rightarrow> analysisData" where
  "useEffect exp64 strat currentPrice random analysisData' =
     (case strat of None \<Rightarrow> analysisData'
      | Some s \<Rightarrow>
        (case options s of None \<Rightarrow> analysisData'
         | Some opts \<Rightarrow>
             if length opts > 0 then calculateAnalysis exp64 opts currentPrice random
             else analysisData'))"

text \<open>The state of a component mounted with the given properties, after its effect.\<close>

definition Analysis_state ::
  "(jsnum \<Rightarrow> jsnum) \<Rightarrow> strategy option \<Rightarrow> real \<Rightarrow> (nat \<Rightarrow> real) \<Rightarrow> analysisData" where
  "Analysis_state exp64 strat currentPrice random =
     useEffect exp64 strat currentPrice random initialAnalysisData"

text \<open>
  What the component returns. Before any tab it returns the empty container (the text
  \<^verbatim>\<open>No strategy selected for analysis\<close>) if
  \<^verbatim>\<open>!strategy || !strategy.options || strategy.options.length === 0\<close>. Otherwise it returns
  the tabs; of their content the two computed values of the risk tab are kept, the risk
  score and the strategy type, which are shown nowhere else.
\<close>

datatype view = EmptyContainer | RiskAnalysis jsnum string

definition Analysis_render :: "strategy option \<Rightarrow> analysisData \<Rightarrow> view" where
  "Analysis_render strat analysisData' =
     (case strat of None \<Rightarrow> EmptyContainer
      | Some s \<Rightarrow>
        (case options s of None \<Rightarrow> EmptyContainer
         | Some opts \<Rightarrow>
             if length opts = 0 then EmptyContainer
             else RiskAnalysis (calculateRiskScore analysisData') (determineStrategyType strat)))"

section \<open>The strategy form\<close>

text \<open>
  \<^verbatim>\<open>validateForm\<close> collects \<^verbatim>\<open>newErrors\<close> (field and message, in the order of the checks),
  stores them with \<^verbatim>\<open>setErrors\<close> and returns whether there are none. The numeric fields hold
  numbers, as the initial form state and \<^verbatim>\<open>updatePremium\<close> set them; \<^verbatim>\<open>!x\<close> on a number is
  \<open>x = 0\<close>, and on an absent field it is true. Text typed into a field, which the form
  stores as a string, is outside this model.
\<close>

definition newErrors :: "formData \<Rightarrow> (string \<times> string) list" where
  "newErrors fd =
     (if strike fd = 0 \<or> strike fd \<le> 0
      then [(''strike'', ''Strike price must be greater than 0'')] else []) @
     (if quantity fd = 0 \<or> quantity fd \<le> 0
      then [(''quantity'', ''Quantity must be greater than 0'')] else []) @
     (if premium fd = 0 \<or> premium fd < 0
      then [(''premium'', ''Premium must be 0 or greater'')] else []) @
     (if (case volatility fd of None \<Rightarrow> True | Some v \<Rightarrow> v = 0 \<or> v < 0 \<or> v > 5)
      then [(''volatility'', ''Volatility must be between 0 and 5'')] else [])"

definition validateForm :: "formData \<Rightarrow> bool" where
  "validateForm fd = (length (newErrors fd) = 0)"

text \<open>
  \<^verbatim>\<open>handleSubmit\<close> returns the leg passed to \<^verbatim>\<open>onConfirm\<close>, or \<open>None\<close> when it shows the
  alert and returns. The built-ins \<^verbatim>\<open>parseFloat\<close> and \<^verbatim>\<open>parseInt\<close> and the value of
  \<^verbatim>\<open>Date.now()\<close> are parameters.
\<close>

definition handleSubmit ::
  "(real \<Rightarrow> real) \<Rightarrow> (real \<Rightarrow> real) \<Rightarrow> int \<Rightarrow> formData \<Rightarrow> strategyOption option" where
  "handleSubmit parseFloat parseInt now fd =
     (if \<not> validateForm fd then None
      else Some \<lparr>strike = parseFloat (strike fd), type = type fd, action = action fd,
                 quantity = parseInt (quantity fd), premium = parseFloat (premium fd),
                 expiration = expiration fd,
                 volatility = map_option parseFloat (volatility fd),
                 option_id = now\<rparr>)"

section \<open>Reference formulas of the specification\<close>

text \<open>
  The definitions of this section are not taken from the code: they restate, over the
  reals, the formulas that the specification gives, and the theorems below compare the
  code with them.
\<close>

text \<open>Payoff Evaluator: the four per-leg cases and the quantity-weighted sum over the legs.\<close>

fun spec_payoffAt :: "optionType \<Rightarrow> optionAction \<Rightarrow> real \<Rightarrow> real \<Rightarrow> real \<Rightarrow> real" where
  "spec_payoffAt Call Buy K prem price = max 0 (price - K) - prem"
| "spec_payoffAt Call Sell K prem price = prem - max 0 (price - K)"
| "spec_payoffAt Put Buy K prem price = max 0 (K - price) - prem"
| "spec_payoffAt Put Sell K prem price = prem - max 0 (K - price)"

definition spec_totalPayoffAt :: "strategyOption list \<Rightarrow> real \<Rightarrow> real" where
  "spec_totalPayoffAt legs price =
     (\<Sum>leg\<leftarrow>legs. quantity leg *
        spec_payoffAt (type leg) (action leg) (strike leg) (premium leg) price)"

text \<open>
  The same two formulas in the arithmetic of the program, for the two places where the
  specification tests the total payoff: each subtraction, product and sum is rounded to
  binary64, and the legs are added from the first to the last, starting from 0.
\<close>

fun spec_payoffAt64 :: "optionType \<Rightarrow> optionAction \<Rightarrow> real \<Rightarrow> real \<Rightarrow> jsnum \<Rightarrow> jsnum" where
  "spec_payoffAt64 Call Buy K prem price =
     round64 (Math_max (Num 0) (round64 (price - Num K)) - Num prem)"
| "spec_payoffAt64 Call Sell K prem price =
     round64 (Num prem - Math_max (Num 0) (round64 (price - Num K)))"
| "spec_payoffAt64 Put Buy K prem price =
     round64 (Math_max (Num 0) (round64 (Num K - price)) - Num prem)"
| "spec_payoffAt64 Put Sell K prem price =
     round64 (Num prem - Math_max (Num 0) (round64 (Num K - price)))"

definition spec_totalPayoffAt64 :: "strategyOption list \<Rightarrow> jsnum \<Rightarrow> jsnum" where
  "spec_totalPayoffAt64 legs price =
     foldl (\<lambda>tot leg.
              round64 (tot + round64 (Num (quantity leg) *
                spec_payoffAt64 (type leg) (action leg) (strike leg) (premium leg) price)))
       (Num 0) legs"

text \<open>
  Greeks Calculator. The error function is the Abramowitz-Stegun approximation 7.1.26,
  \<open>1 - (a\<^sub>1 t + a\<^sub>2 t\<^sup>2 + a\<^sub>3 t\<^sup>3 + a\<^sub>4 t\<^sup>4 + a\<^sub>5 t\<^sup>5) exp (- x\<^sup>2)\<close> with \<open>t = 1 / (1 + p x)\<close> for
  \<open>x \<ge> 0\<close>, continued as an odd function.
\<close>

definition spec_erf :: "real \<Rightarrow> real" where
  "spec_erf x =
     (let t = 1 / (1 + 0.3275911 * \<bar>x\<bar>)
      in (if 0 \<le> x then 1 else - 1) *
         (1 - (0.254829592 * t + (- 0.284496736) * t ^ 2 + 1.421413741 * t ^ 3
               + (- 1.453152027) * t ^ 4 + 1.061405429 * t ^ 5) * exp (- (x ^ 2))))"

definition spec_N :: "real \<Rightarrow> real" where
  "spec_N x = 0.5 * (1 + spec_erf (x / sqrt 2))"

definition spec_n :: "real \<Rightarrow> real" where
  "spec_n x = exp (- (x ^ 2) / 2) / sqrt (2 * pi)"

definition spec_d1 :: "real \<Rightarrow> real \<Rightarrow> real \<Rightarrow> real \<Rightarrow> real \<Rightarrow> real" where
  "spec_d1 S K T r sigma = (ln (S / K) + (r + 0.5 * sigma ^ 2) * T) / (sigma * sqrt T)"

definition spec_d2 :: "real \<Rightarrow> real \<Rightarrow> real \<Rightarrow> real \<Rightarrow> real \<Rightarrow> real" where
  "spec_d2 S K T r sigma = spec_d1 S K T r sigma - sigma * sqrt T"

text \<open>The reported Greeks: theta per day (\<open>/ 365\<close>), vega and rho per point (\<open>/ 100\<close>).\<close>

fun spec_greeksAt :: "real \<Rightarrow> real \<Rightarrow> real \<Rightarrow> real \<Rightarrow> real \<Rightarrow> optionType \<Rightarrow> real Greeks" where
  "spec_greeksAt S K T r sigma Call =
     \<lparr>delta = spec_N (spec_d1 S K T r sigma),
      gamma = spec_n (spec_d1 S K T r sigma) / (S * sigma * sqrt T),
      theta = (- (S * spec_n (spec_d1 S K T r sigma) * sigma) / (2 * sqrt T)
               - r * K * exp (- r * T) * spec_N (spec_d2 S K T r sigma)) / 365,
      vega = (S * spec_n (spec_d1 S K T r sigma) * sqrt T) / 100,
      rho = (K * T * exp (- r * T) * spec_N (spec_d2 S K T r sigma)) / 100\<rparr>"
| "spec_greeksAt S K T r sigma Put =
     \<lparr>delta = spec_N (spec_d1 S K T r sigma) - 1,
      gamma = spec_n (spec_d1 S K T r sigma) / (S * sigma * sqrt T),
      theta = (- (S * spec_n (spec_d1 S K T r sigma) * sigma) / (2 * sqrt T)
               + r * K * exp (- r * T) * spec_N (- spec_d2 S K T r sigma)) / 365,
      vega = (S * spec_n (spec_d1 S K T r sigma) * sqrt T) / 100,
      rho = (- K * T * exp (- r * T) * spec_N (- spec_d2 S K T r sigma)) / 100\<rparr>"

text \<open>Aggregate Greeks: each leg at 30/365 years and rate 0.05 with its own volatility
  (0.2 when absent), weighted by \<open>\<plusminus>1\<close> times the quantity, and summed.\<close>

definition leg_volatility :: "strategyOption \<Rightarrow> real" where
  "leg_volatility leg = (case volatility leg of None \<Rightarrow> 0.2 | Some v \<Rightarrow> v)"

definition leg_sign :: "strategyOption \<Rightarrow> real" where
  "leg_sign leg = (if action leg = Buy then 1 else - 1)"

definition spec_legGreeks :: "real \<Rightarrow> strategyOption \<Rightarrow> real Greeks" where
  "spec_legGreeks spot leg =
     spec_greeksAt spot (strike leg) (30 / 365) 0.05 (leg_volatility leg) (type leg)"

definition spec_aggregateGreeks :: "strategyOption list \<Rightarrow> real \<Rightarrow> real Greeks" where
  "spec_aggregateGreeks legs spot =
     \<lparr>delta = (\<Sum>leg\<leftarrow>legs. delta (spec_legGreeks spot leg) * (leg_sign leg * quantity leg)),
      gamma = (\<Sum>leg\<leftarrow>legs. gamma (spec_legGreeks spot leg) * (leg_sign leg * quantity leg)),
      theta = (\<Sum>leg\<leftarrow>legs. theta (spec_legGreeks spot leg) * (leg_sign leg * quantity leg)),
      vega = (\<Sum>leg\<leftarrow>legs. vega (spec_legGreeks spot leg) * (leg_sign leg * quantity leg)),
      rho = (\<Sum>leg\<leftarrow>legs. rho (spec_legGreeks spot leg) * (leg_sign leg * quantity leg))\<rparr>"

text \<open>Real Greeks as the numbers the code returns.\<close>

definition Num_Greeks :: "real Greeks \<Rightarrow> jsnum Greeks" where
  "Num_Greeks g = \<lparr>delta = Num (delta g), gamma = Num (gamma g), theta = Num (theta g),
                   vega = Num (vega g), rho = Num (rho g)\<rparr>"

section \<open>Example inputs\<close>

text \<open>The long call of the specification's first scenario, at spot 150.\<close>

definition longCall :: strategyOption where
  "longCall = \<lparr>strike = 150, type = Call, action = Buy, quantity = 1, premium = 5,
     expiration = ''2024-01-19'', volatility = Some 0.2, option_id = 1\<rparr>"


text \<open>Two calls above the sweep range whose premiums cancel.\<close>

definition longCall300 :: strategyOption where
  "longCall300 = \<lparr>strike = 300, type = Call, action = Buy, quantity = 1, premium = 5,
     expiration = ''2024-01-19'', volatility = Some 0.2, option_id = 1\<rparr>"

definition shortCall400 :: strategyOption where
  "shortCall400 = \<lparr>strike = 400, type = Call, action = Sell, quantity = 1, premium = 5,
     expiration = ''2024-01-19'', volatility = Some 0.2, option_id = 2\<rparr>"

text \<open>
  Two spreads with premiums of a few cents: a call bought at 150 and three calls sold at
  160 for 0.01 each, the call bought for 0.02 in the first spread and for 0.03 in the
  second. The premiums are the binary64 numbers that these decimals denote.
\<close>

definition longCall150 :: "real \<Rightarrow> strategyOption" where
  "longCall150 prem = \<lparr>strike = 150, type = Call, action = Buy, quantity = 1, premium = prem,
     expiration = ''2024-01-19'', volatility = Some 0.2, option_id = 1\<rparr>"

definition shortCalls160 :: strategyOption where
  "shortCalls160 = \<lparr>strike = 160, type = Call, action = Sell, quantity = 3,
     premium = binary64 0.01,
     expiration = ''2024-01-19'', volatility = Some 0.2, option_id = 2\<rparr>"

definition spread02 :: "strategyOption list" where
  "spread02 = [longCall150 (binary64 0.02), shortCalls160]"

definition spread03 :: "strategyOption list" where
  "spread03 = [longCall150 (binary64 0.03), shortCalls160]"

text \<open>\<^verbatim>\<open>Math.random()\<close> returning 0.5 at every call.\<close>

definition random_half :: "nat \<Rightarrow> real" where
  "random_half i = 0.5"

text \<open>An engine whose \<^verbatim>\<open>Math.exp\<close> returns the binary64 number nearest to the exponential.\<close>

definition nearest_exp :: "jsnum \<Rightarrow> jsnum" where
  "nearest_exp x = round64 (Math_exp x)"

text \<open>A strategy object with an empty \<^verbatim>\<open>options\<close> array.\<close>

definition emptyStrategy :: "strategy option" where
  "emptyStrategy = Some \<lparr>options = Some []\<rparr>"

text \<open>The form as it opens on a chain row without a call bid
  (\<^verbatim>\<open>premium: option.callBid || 0\<close>), all other fields valid.\<close>

definition zeroPremiumForm :: formData where
  "zeroPremiumForm = \<lparr>strike = 150, type = Call, action = Buy, quantity = 1, premium = 0,
     expiration = ''2024-01-19'', volatility = Some 0.2\<rparr>"

section \<open>Auxiliary definitions\<close>

text \<open>The point that \<^verbatim>\<open>calculateTimeDecay\<close> pushes for a value of \<^verbatim>\<open>days\<close>.\<close>

definition timeDecay_point :: "strategyOption list \<Rightarrow> real \<Rightarrow> int \<Rightarrow> real \<times> jsnum" where
  "timeDecay_point opts currentPrice days =
     (of_int (30 - days), totalTheta opts currentPrice (Num (of_int days) / Num 365))"

section \<open>Arithmetic of the special values\<close>

lemma Num_minus [simp]: "Num a - Num b = Num (a - b)"
  by (simp add: minus_jsnum_def)

lemma Num_divide [simp]: "b \<noteq> 0 \<Longrightarrow> Num a / Num b = Num (a / b)"
  by (simp add: divide_jsnum_def)

lemma NaN_plus [simp]: "x + NaN = NaN"
  by (cases x) simp_all

lemma NaN_minus [simp]: "NaN - y = NaN" "x - NaN = NaN"
  by (simp_all add: minus_jsnum_def)

lemma NaN_times [simp]: "x * NaN = NaN"
  by (cases x) simp_all

lemma NaN_divide [simp]: "NaN / y = NaN" "x / NaN = NaN"
  by (cases y; simp add: divide_jsnum_def) (cases x; simp add: divide_jsnum_def)

lemma Math_min_NaN [simp]: "Math_min x NaN = NaN"
  by (cases x) simp_all

lemma Math_max_NaN [simp]: "Math_max x NaN = NaN"
  by (cases x) simp_all

lemma divide_Num_zero: "x / Num 0 = NaN \<or> x / Num 0 = PosInf \<or> x / Num 0 = NegInf"
  by (cases x) (simp_all add: divide_jsnum_def)

lemma jsnum_times_commute: "x * y = y * x" for x y :: jsnum
  by (cases x; cases y) (simp_all add: mult.commute)

section \<open>Rounding to binary64\<close>

lemma round_even_nonneg: "0 \<le> x \<Longrightarrow> 0 \<le> round_even x"
  by (auto simp: round_even_def Let_def)

lemma binary64_zero [simp]: "binary64 0 = 0"
  by (simp add: binary64_def)

lemma binary64_minus: "binary64 (- x) = - binary64 x"
  by (simp add: binary64_def sgn_minus)

lemma binary64_nonneg: "0 \<le> x \<Longrightarrow> 0 \<le> binary64 x"
  by (auto simp: binary64_def sgn_if intro!: mult_nonneg_nonneg round_even_nonneg)

lemma binary64_nonpos: "x \<le> 0 \<Longrightarrow> binary64 x \<le> 0"
  using binary64_nonneg [of "- x"] by (simp add: binary64_minus)

text \<open>Rounding inside a known binade of the normal range.\<close>

lemma binary64_in_binade:
  assumes "2 powr (of_int k) \<le> x" "x < 2 powr (of_int (k + 1))" "- 1022 \<le> k"
  shows "binary64 x =
    of_int (round_even (x / 2 powr (of_int (k - 52)))) * 2 powr (of_int (k - 52))"
proof -
  have pos: "0 < x" using assms(1) by (smt (verit) powr_gt_zero)
  then have "\<lfloor>log 2 x\<rfloor> = k"
    using assms by (simp add: floor_log_eq_powr_iff)
  then show ?thesis using pos assms(3) by (simp add: binary64_def)
qed

lemma fl64_zero [simp]: "fl64 0 = Num 0"
  by (simp add: fl64_def)

text \<open>A difference that is not positive is cut off at 0 by \<^verbatim>\<open>Math.max(0, _)\<close>.\<close>

lemma Math_max_fl64_nonpos: "x \<le> 0 \<Longrightarrow> Math_max (Num 0) (fl64 x) = Num 0"
  using binary64_nonpos [of x] by (simp add: fl64_def)

lemma round_even_le: "of_int (round_even x) \<le> x + 1"
  by (simp add: round_even_def Let_def) linarith

text \<open>Numbers between 0 and 1 stay finite when they are rounded.\<close>

lemma fl64_unit:
  assumes "0 \<le> x" "x \<le> 1"
  shows "fl64 x = Num (binary64 x)"
proof (cases "x = 0")
  case True
  then show ?thesis by simp
next
  case False
  with assms have pos: "0 < x" by simp
  define e where "e = max \<lfloor>log 2 x\<rfloor> (- 1022)"
  define u :: real where "u = 2 powr of_int (e - 52)"
  have "log 2 x \<le> 0" using pos assms(2) by simp
  then have "\<lfloor>log 2 x\<rfloor> \<le> 0" by (simp add: floor_le_zero)
  then have "e \<le> 0" by (simp add: e_def)
  then have "u \<le> 2 powr 0" unfolding u_def by (intro powr_mono) simp_all
  then have u1: "u \<le> 1" by simp
  have u0: "0 < u" by (simp add: u_def)
  have b: "binary64 x = of_int (round_even (x / u)) * u"
    using pos by (simp add: binary64_def e_def u_def)
  have "of_int (round_even (x / u)) * u \<le> (x / u + 1) * u"
    using round_even_le [of "x / u"] u0 by (simp only: mult_le_cancel_right_pos)
  also have "\<dots> = x + u" using u0 by (simp add: field_simps)
  finally have "binary64 x \<le> 2" using b u1 assms(2) by simp
  moreover have "0 \<le> binary64 x" using assms(1) by (rule binary64_nonneg)
  ultimately have "\<not> 2 ^ 1024 \<le> \<bar>binary64 x\<bar>" by simp
  then show ?thesis by (simp add: fl64_def)
qed

text \<open>The binary64 values of the numbers that the examples use.\<close>

lemma b01: "binary64 0.01 = 5764607523034235 / 576460752303423488"
  by (subst binary64_in_binade [of "- 7"]) (simp_all add: powr_neg_numeral round_even_def)

lemma b02: "binary64 0.02 = 5764607523034235 / 288230376151711744"
  by (subst binary64_in_binade [of "- 6"]) (simp_all add: powr_neg_numeral round_even_def)

lemma b03: "binary64 0.03 = 1080863910568919 / 36028797018963968"
  by (subst binary64_in_binade [of "- 6"]) (simp_all add: powr_neg_numeral round_even_def)

lemma fl64_b01: "fl64 (5764607523034235 / 576460752303423488) = Num (5764607523034235 / 576460752303423488)"
  unfolding fl64_def
  by (subst (1 2) binary64_in_binade [of "- 7"]) (simp_all add: powr_neg_numeral round_even_def)

lemma fl64_neg_b02: "fl64 (- (5764607523034235 / 288230376151711744)) = Num (- (5764607523034235 / 288230376151711744))"
  unfolding fl64_def binary64_minus
  by (subst (1 2) binary64_in_binade [of "- 6"]) (simp_all add: powr_neg_numeral round_even_def)

lemma fl64_neg_b03: "fl64 (- (1080863910568919 / 36028797018963968)) = Num (- (1080863910568919 / 36028797018963968))"
  unfolding fl64_def binary64_minus
  by (subst (1 2) binary64_in_binade [of "- 6"]) (simp_all add: powr_neg_numeral round_even_def)

text \<open>Three times 0.01 is rounded to 0.03.\<close>

lemma fl64_3b01: "fl64 (5764607523034235 / 576460752303423488 * 3) = Num (1080863910568919 / 36028797018963968)"
  unfolding fl64_def
  by (subst (1 2) binary64_in_binade [of "- 6"]) (simp_all add: powr_neg_numeral round_even_def)

lemma fl64_b03_b02: "fl64 (1080863910568919 / 36028797018963968 - 5764607523034235 / 288230376151711744)
    = Num (2882303761517117 / 288230376151711744)"
  unfolding fl64_def
  by (subst (1 2) binary64_in_binade [of "- 7"]) (simp_all add: powr_neg_numeral round_even_def)

lemma timeToExpiry64: "binary64 (30 / 365) = 740317746965013 / 9007199254740992"
  by (subst binary64_in_binade [of "- 4"]) (simp_all add: powr_neg_numeral round_even_def)

lemma fl64_1: "fl64 1 = Num 1"
  unfolding fl64_def
  by (subst (1 2) binary64_in_binade [of 0]) (simp_all add: round_even_def powr_minus)

lemma fl64_5: "fl64 5 = Num 5" "fl64 (- 5) = Num (- 5)"
  unfolding fl64_def binary64_minus
  by (subst (1 2) binary64_in_binade [of 2], simp_all add: round_even_def powr_minus)+

lemma fl64_140: "fl64 140 = Num 140"
  unfolding fl64_def
  by (subst (1 2) binary64_in_binade [of 7]) (simp_all add: round_even_def powr_minus)

section \<open>The price sweeps\<close>

lemma totalPayoff_sum:
  "totalPayoff opts price = (\<Sum>option\<leftarrow>opts. quantity option * optionPayoff option price)"
proof -
  have "foldl (\<lambda>payoff option. payoff + optionPayoff option price * quantity option) a opts
          = a + (\<Sum>option\<leftarrow>opts. quantity option * optionPayoff option price)" for a
    by (induction opts arbitrary: a) (simp_all add: algebra_simps)
  then show ?thesis by (simp add: totalPayoff_def)
qed

lemma optionPayoff_spec:
  "optionPayoff leg price =
     spec_payoffAt (type leg) (action leg) (strike leg) (premium leg) price"
  by (cases "type leg"; cases "action leg") (simp_all add: optionPayoff_def)

lemma totalPayoff_spec: "totalPayoff opts price = spec_totalPayoffAt opts price"
  by (simp add: totalPayoff_sum spec_totalPayoffAt_def optionPayoff_spec)

lemma totalPayoff_Nil: "totalPayoff [] price = 0"
  by (simp add: totalPayoff_def)

lemma optionPayoff64_spec:
  "optionPayoff64 leg price =
     spec_payoffAt64 (type leg) (action leg) (strike leg) (premium leg) price"
  by (cases "type leg"; cases "action leg") (simp_all add: optionPayoff64_def)

lemma totalPayoff64_spec: "totalPayoff64 opts price = spec_totalPayoffAt64 opts price"
  by (simp add: totalPayoff64_def spec_totalPayoffAt64_def optionPayoff64_spec
      jsnum_times_commute)

lemma totalPayoff64_Nil: "totalPayoff64 [] price = Num 0"
  by (simp add: totalPayoff64_def)

lemma maxProfit_loop_ge: "acc \<le> maxProfit_loop opts price acc"
proof (induction opts price acc rule: maxProfit_loop.induct)
  case (1 opts price acc)
  show ?case
  proof (cases "price \<le> 250")
    case True
    have "acc \<le> max acc (totalPayoff opts price)" by simp
    also have "\<dots> \<le> maxProfit_loop opts (price + 1) (max acc (totalPayoff opts price))"
      using "1.IH" True by simp
    finally show ?thesis using True by (subst maxProfit_loop.simps) simp
  next
    case False
    then show ?thesis by (subst maxProfit_loop.simps) simp
  qed
qed

lemma maxLoss_loop_le: "maxLoss_loop opts price acc \<le> acc"
proof (induction opts price acc rule: maxLoss_loop.induct)
  case (1 opts price acc)
  show ?case
  proof (cases "price \<le> 250")
    case True
    have "maxLoss_loop opts (price + 1) (min acc (totalPayoff opts price))
            \<le> min acc (totalPayoff opts price)"
      using "1.IH" True by simp
    also have "\<dots> \<le> acc" by simp
    finally show ?thesis using True by (subst maxLoss_loop.simps) simp
  next
    case False
    then show ?thesis by (subst maxLoss_loop.simps) simp
  qed
qed

text \<open>A payoff that is constant over the sweep range.\<close>

lemma maxProfit_loop_const:
  "(\<And>p. p \<le> 250 \<Longrightarrow> totalPayoff opts p = c) \<Longrightarrow>
   maxProfit_loop opts price acc = (if price \<le> 250 then max acc c else acc)"
proof (induction opts price acc rule: maxProfit_loop.induct)
  case (1 opts price acc)
  show ?case
  proof (cases "price \<le> 250")
    case True
    have "maxProfit_loop opts (price + 1) (max acc (totalPayoff opts price))
            = (if price + 1 \<le> 250 then max (max acc (totalPayoff opts price)) c
               else max acc (totalPayoff opts price))"
      using True "1.prems" by (intro "1.IH") simp_all
    then show ?thesis
      using True "1.prems" [OF True] by (subst maxProfit_loop.simps) simp
  next
    case False
    then show ?thesis by (subst maxProfit_loop.simps) simp
  qed
qed

lemma maxLoss_loop_const:
  "(\<And>p. p \<le> 250 \<Longrightarrow> totalPayoff opts p = c) \<Longrightarrow>
   maxLoss_loop opts price acc = (if price \<le> 250 then min acc c else acc)"
proof (induction opts price acc rule: maxLoss_loop.induct)
  case (1 opts price acc)
  show ?case
  proof (cases "price \<le> 250")
    case True
    have "maxLoss_loop opts (price + 1) (min acc (totalPayoff opts price))
            = (if price + 1 \<le> 250 then min (min acc (totalPayoff opts price)) c
               else min acc (totalPayoff opts price))"
      using True "1.prems" by (intro "1.IH") simp_all
    then show ?thesis
      using True "1.prems" [OF True] by (subst maxLoss_loop.simps) simp
  next
    case False
    then show ?thesis by (subst maxLoss_loop.simps) simp
  qed
qed

lemma calculateMaxProfit_const:
  "(\<And>p. p \<le> 250 \<Longrightarrow> totalPayoff opts p = c) \<Longrightarrow> calculateMaxProfit opts = max 0 c"
  by (simp add: calculateMaxProfit_def maxProfit_loop_const)

lemma calculateMaxLoss_const:
  "(\<And>p. p \<le> 250 \<Longrightarrow> totalPayoff opts p = c) \<Longrightarrow> calculateMaxLoss opts = min 0 c"
  by (simp add: calculateMaxLoss_def maxLoss_loop_const)

text \<open>The breakeven loop visits the samples \<open>50 + k / 2\<close> in order and keeps those that pass
  the test.\<close>

lemma breakeven_loop_filter:
  "k \<le> 401 \<Longrightarrow>
   breakeven_loop opts (50 + real k / 2) acc =
     acc @ filter (\<lambda>p. js_lt (Math_abs (totalPayoff64 opts (Num p))) (Num (binary64 0.01)))
       (map (\<lambda>i. 50 + real i / 2) [k..<401])"
proof (induction "401 - k" arbitrary: k acc)
  case 0
  then have k: "k = 401" by simp
  show ?case unfolding k by (subst breakeven_loop.simps) simp
next
  case (Suc d)
  then have lt: "k < 401" and d: "d = 401 - Suc k" and le: "Suc k \<le> 401" by simp_all
  have step: "50 + real k / 2 + 0.5 = 50 + real (Suc k) / 2" by (simp add: field_simps)
  have range: "[k..<401] = k # [Suc k..<401]" using lt by (simp add: upt_conv_Cons)
  have cond: "50 + real k / 2 \<le> 250" using lt by simp
  show ?case
    by (subst breakeven_loop.simps) (simp only: cond if_True step Suc.hyps(1) [OF d le] range, simp)
qed

lemma calculateBreakeven_filter:
  "calculateBreakeven opts =
     filter (\<lambda>p. js_lt (Math_abs (totalPayoff64 opts (Num p))) (Num (binary64 0.01)))
       (map (\<lambda>k. 50 + real k / 2) [0..<401])"
  using breakeven_loop_filter [of 0 opts "[]"] by (simp add: calculateBreakeven_def)

lemma samples_sorted: "sorted (map (\<lambda>k. 50 + real k / 2) [0..<401])"
proof -
  have "sorted_wrt (\<le>) [0..<401::nat]" by (rule sorted_upt)
  then have "sorted_wrt (\<lambda>x y. 50 + real x / 2 \<le> 50 + real y / 2) [0..<401]"
    by (rule sorted_wrt_mono_rel [rotated]) simp
  then show ?thesis by (simp only: sorted_map)
qed

text \<open>The two sweeps visit the prices \<open>50 + k\<close> for \<open>k\<close> from 0 to 200.\<close>

lemma maxProfit_loop_fold:
  "k \<le> 201 \<Longrightarrow>
   maxProfit_loop opts (50 + real k) acc =
     fold max (map (\<lambda>i. totalPayoff opts (50 + real i)) [k..<201]) acc"
proof (induction "201 - k" arbitrary: k acc)
  case 0
  then have k: "k = 201" by simp
  show ?case unfolding k by (subst maxProfit_loop.simps) simp
next
  case (Suc d)
  then have lt: "k < 201" and d: "d = 201 - Suc k" and le: "Suc k \<le> 201" by simp_all
  have step: "50 + real k + 1 = 50 + real (Suc k)" by simp
  have range: "[k..<201] = k # [Suc k..<201]" using lt by (simp add: upt_conv_Cons)
  have cond: "50 + real k \<le> 250" using lt by simp
  show ?case
    by (subst maxProfit_loop.simps)
      (simp only: cond if_True step Suc.hyps(1) [OF d le] range, simp add: max.commute)
qed

lemma maxLoss_loop_fold:
  "k \<le> 201 \<Longrightarrow>
   maxLoss_loop opts (50 + real k) acc =
     fold min (map (\<lambda>i. totalPayoff opts (50 + real i)) [k..<201]) acc"
proof (induction "201 - k" arbitrary: k acc)
  case 0
  then have k: "k = 201" by simp
  show ?case unfolding k by (subst maxLoss_loop.simps) simp
next
  case (Suc d)
  then have lt: "k < 201" and d: "d = 201 - Suc k" and le: "Suc k \<le> 201" by simp_all
  have step: "50 + real k + 1 = 50 + real (Suc k)" by simp
  have range: "[k..<201] = k # [Suc k..<201]" using lt by (simp add: upt_conv_Cons)
  have cond: "50 + real k \<le> 250" using lt by simp
  show ?case
    by (subst maxLoss_loop.simps)
      (simp only: cond if_True step Suc.hyps(1) [OF d le] range, simp add: min.commute)
qed

lemma calculateMaxProfit_Max:
  "calculateMaxProfit opts = Max (set (0 # map (\<lambda>k. totalPayoff opts (50 + real k)) [0..<201]))"
  using maxProfit_loop_fold [of 0 opts 0]
  by (simp only: calculateMaxProfit_def Max.set_eq_fold) simp

lemma calculateMaxLoss_Min:
  "calculateMaxLoss opts = Min (set (0 # map (\<lambda>k. totalPayoff opts (50 + real k)) [0..<201]))"
  using maxLoss_loop_fold [of 0 opts 0]
  by (simp only: calculateMaxLoss_def Min.set_eq_fold) simp

text \<open>
  Claim C2. For every list of legs, the empty one included, the maximum loss reported by
  \<^verbatim>\<open>calculateMaxLoss\<close> is at most 0 and the maximum profit reported by
  \<^verbatim>\<open>calculateMaxProfit\<close> is at least 0. Both sweeps run over the prices 50, 51, \<dots>, 250 with
  an accumulator that starts at 0: the maximum profit is the greatest, and the maximum
  loss the least, of 0 and the total payoffs at these 201 prices.
\<close>

theorem maxLoss_le_zero_le_maxProfit:
  "calculateMaxLoss opts \<le> 0 \<and> 0 \<le> calculateMaxProfit opts
   \<and> calculateMaxProfit opts
       = Max (set (0 # map (\<lambda>k. spec_totalPayoffAt opts (50 + real k)) [0..<201]))
   \<and> calculateMaxLoss opts
       = Min (set (0 # map (\<lambda>k. spec_totalPayoffAt opts (50 + real k)) [0..<201]))"
proof -
  have "calculateMaxLoss opts \<le> 0"
    unfolding calculateMaxLoss_def by (rule maxLoss_loop_le)
  moreover have "0 \<le> calculateMaxProfit opts"
    unfolding calculateMaxProfit_def by (rule maxProfit_loop_ge)
  moreover have "calculateMaxProfit opts
       = Max (set (0 # map (\<lambda>k. spec_totalPayoffAt opts (50 + real k)) [0..<201]))"
    using calculateMaxProfit_Max [of opts] by (simp only: totalPayoff_spec)
  moreover have "calculateMaxLoss opts
       = Min (set (0 # map (\<lambda>k. spec_totalPayoffAt opts (50 + real k)) [0..<201]))"
    using calculateMaxLoss_Min [of opts] by (simp only: totalPayoff_spec)
  ultimately show ?thesis
    by (intro conjI)
qed

text \<open>
  Claim C3. The list returned by \<^verbatim>\<open>calculateBreakeven\<close> is the list of the 401 sample
  prices 50, 50.5, \<dots>, 250, taken in this order, restricted to those whose total payoff,
  as the specification defines it (the quantity-weighted sum of the four-case per-leg
  payoff), is less than 0.01 in absolute value. Every qualifying sample is kept, so
  neighbouring samples are not merged, and the result is ascending. The payoff, the
  literal 0.01 and the comparison are those of the program's arithmetic, binary64.
\<close>

theorem breakeven_is_filtered_samples:
  "calculateBreakeven opts =
     filter (\<lambda>p. js_lt (Math_abs (spec_totalPayoffAt64 opts (Num p))) (Num (binary64 0.01)))
       (map (\<lambda>k. 50 + real k / 2) [0..<401])
   \<and> sorted (calculateBreakeven opts)"
proof -
  have eq: "calculateBreakeven opts =
      filter (\<lambda>p. js_lt (Math_abs (spec_totalPayoffAt64 opts (Num p))) (Num (binary64 0.01)))
        (map (\<lambda>k. 50 + real k / 2) [0..<401])"
    by (simp only: calculateBreakeven_filter totalPayoff64_spec)
  have "sorted (calculateBreakeven opts)"
    unfolding eq using samples_sorted by (rule sorted_wrt_filter)
  with eq show ?thesis by simp
qed

subsection \<open>The breakeven test at the edge of its threshold\<close>

text \<open>
  The test of the breakeven sweep is the one the program computes. For a call bought at
  150 for 0.02 and three calls sold at 160 for 0.01 each, the payoff below 150 is
  \<open>3 * 0.01 - 0.02\<close>: the program rounds the product to 0.03 and the difference to the
  binary64 number next below 0.01, and lists the sample, whereas the difference without
  rounding is the program's 0.01 itself, which is not less than 0.01.
\<close>

lemma longCall150_fields:
  "strike (longCall150 prem) = 150" "type (longCall150 prem) = Call"
  "action (longCall150 prem) = Buy" "quantity (longCall150 prem) = 1"
  "premium (longCall150 prem) = prem"
  by (simp_all add: longCall150_def)

lemma shortCalls160_fields:
  "strike shortCalls160 = 160" "type shortCalls160 = Call"
  "action shortCalls160 = Sell" "quantity shortCalls160 = 3"
  "premium shortCalls160 = 5764607523034235 / 576460752303423488"
  by (simp_all only: shortCalls160_def b01) simp_all

lemma shortCalls160_payoff64:
  assumes "p \<le> 160"
  shows "round64 (optionPayoff64 shortCalls160 (Num p) * Num (quantity shortCalls160))
    = Num (1080863910568919 / 36028797018963968)"
proof -
  have "Math_max (Num 0) (round64 (Num p - Num 160)) = Num 0"
    using assms by (simp add: Math_max_fl64_nonpos)
  then have "optionPayoff64 shortCalls160 (Num p) = Num (5764607523034235 / 576460752303423488)"
    by (simp add: optionPayoff64_def shortCalls160_fields fl64_b01)
  then show ?thesis
    using fl64_3b01 by (simp add: shortCalls160_fields)
qed

lemma longCall150_payoff64:
  assumes "p \<le> 150" and "fl64 (- prem) = Num (- prem)"
  shows "round64 (optionPayoff64 (longCall150 prem) (Num p) * Num (quantity (longCall150 prem)))
    = Num (- prem)"
proof -
  have "Math_max (Num 0) (round64 (Num p - Num 150)) = Num 0"
    using assms by (simp add: Math_max_fl64_nonpos)
  then have "optionPayoff64 (longCall150 prem) (Num p) = Num (- prem)"
    using assms(2) by (simp add: optionPayoff64_def longCall150_fields)
  then show ?thesis
    using assms(2) by (simp add: longCall150_fields)
qed

text \<open>
  Below the lower strike the first spread pays \<open>3 * 0.01 - 0.02\<close>, which in binary64 is
  the number next below 0.01, and exactly 0.01 (as the program holds it) without rounding.
\<close>

lemma spread02_payoff64:
  assumes "p \<le> 150"
  shows "totalPayoff64 spread02 (Num p) = Num (2882303761517117 / 288230376151711744)"
proof -
  have 1: "round64 (optionPayoff64 (longCall150 (binary64 0.02)) (Num p)
              * Num (quantity (longCall150 (binary64 0.02))))
            = Num (- (5764607523034235 / 288230376151711744))"
    using longCall150_payoff64 [OF assms, of "binary64 0.02"] fl64_neg_b02
    by (simp only: b02)
  have 2: "round64 (optionPayoff64 shortCalls160 (Num p) * Num (quantity shortCalls160))
            = Num (1080863910568919 / 36028797018963968)"
    using assms by (intro shortCalls160_payoff64) simp
  show ?thesis
    unfolding totalPayoff64_def spread02_def foldl.simps 1 2
    using fl64_neg_b02 fl64_b03_b02 by simp
qed

lemma spread02_eq:
  "spread02 = [longCall150 (5764607523034235 / 288230376151711744), shortCalls160]"
  by (simp only: spread02_def b02)

lemma spread02_payoff:
  "p \<le> 150 \<Longrightarrow> spec_totalPayoffAt spread02 p = 5764607523034235 / 576460752303423488"
  unfolding spec_totalPayoffAt_def spread02_eq
  by (simp add: longCall150_fields shortCalls160_fields)

lemma sample_in_range:
  "k \<le> 400 \<Longrightarrow> 50 + real k / 2 \<in> set (map (\<lambda>k. 50 + real k / 2) [0..<401])"
proof -
  assume "k \<le> 400"
  then have "k \<in> set [0..<401]" by simp
  then have "50 + real k / 2 \<in> (\<lambda>k. 50 + real k / 2) ` set [0..<401]" by (rule imageI)
  then show ?thesis by (simp only: set_map)
qed

lemma spread02_breakeven:
  assumes "k \<le> 200"
  shows "50 + real k / 2 \<in> set (calculateBreakeven spread02)"
    and "\<not> \<bar>spec_totalPayoffAt spread02 (50 + real k / 2)\<bar> < 0.01"
proof -
  have le: "50 + real k / 2 \<le> 150" using assms by simp
  have "50 + real k / 2 \<in> set (map (\<lambda>k. 50 + real k / 2) [0..<401])"
    using assms by (intro sample_in_range) simp
  moreover have "js_lt (Math_abs (totalPayoff64 spread02 (Num (50 + real k / 2))))
      (Num (binary64 0.01))"
    unfolding spread02_payoff64 [OF le] b01 by simp
  ultimately show "50 + real k / 2 \<in> set (calculateBreakeven spread02)"
    unfolding calculateBreakeven_filter set_filter by blast
  show "\<not> \<bar>spec_totalPayoffAt spread02 (50 + real k / 2)\<bar> < 0.01"
    unfolding spread02_payoff [OF le] by simp
qed

lemma offsetting_payoff64:
  assumes "p \<le> 250"
  shows "totalPayoff64 [longCall300, shortCall400] (Num p) = Num 0"
proof -
  have "Math_max (Num 0) (round64 (Num p - Num 300)) = Num 0"
    "Math_max (Num 0) (round64 (Num p - Num 400)) = Num 0"
    using assms by (simp_all add: Math_max_fl64_nonpos)
  then have "optionPayoff64 longCall300 (Num p) = Num (- 5)"
    "optionPayoff64 shortCall400 (Num p) = Num 5"
    by (simp_all add: optionPayoff64_def longCall300_def shortCall400_def fl64_5)
  then show ?thesis
    by (simp add: totalPayoff64_def longCall300_def shortCall400_def fl64_5)
qed

text \<open>A flat payoff of 0: every sample of the breakeven sweep is reported, neighbours
  included.\<close>

lemma offsetting_breakeven:
  "calculateBreakeven [longCall300, shortCall400] = map (\<lambda>k. 50 + real k / 2) [0..<401]"
proof -
  have "js_lt (Math_abs (totalPayoff64 [longCall300, shortCall400] (Num p))) (Num (binary64 0.01))"
    if "p \<in> set (map (\<lambda>k. 50 + real k / 2) [0..<401])" for p
  proof -
    from that have "p \<le> 250" by auto
    then show ?thesis unfolding b01 by (simp add: offsetting_payoff64)
  qed
  then show ?thesis
    unfolding calculateBreakeven_filter by (intro filter_True) blast
qed

section \<open>The probability of profit\<close>

lemma pop_loop_count:
  "i \<le> 1000 \<Longrightarrow>
   pop_loop exp64 opts currentPrice random i n =
     n + length (filter
           (\<lambda>j. js_gt (totalPayoff64 opts (randomPrice64 exp64 currentPrice (random j))) (Num 0))
           [i..<1000])"
proof (induction "1000 - i" arbitrary: i n)
  case 0
  then have i: "i = 1000" by simp
  show ?case unfolding i by (subst pop_loop.simps) simp
next
  case (Suc d)
  then have lt: "i < 1000" and d: "d = 1000 - (i + 1)" and le: "i + 1 \<le> 1000" by simp_all
  have range: "[i..<1000] = i # [i + 1..<1000]" using lt by (simp add: upt_conv_Cons)
  show ?case
    by (subst pop_loop.simps) (simp only: lt if_True Suc.hyps(1) [OF d le] range, simp)
qed

lemma pop_loop_le: "pop_loop exp64 opts currentPrice random 0 0 \<le> 1000"
proof -
  have "length (filter
           (\<lambda>j. js_gt (totalPayoff64 opts (randomPrice64 exp64 currentPrice (random j))) (Num 0))
           [0..<1000])
          \<le> length [0..<1000::nat]"
    by (rule length_filter_le)
  then show ?thesis by (simp add: pop_loop_count)
qed

lemma pop_bounds:
  "0 \<le> calculateProbabilityOfProfit exp64 opts currentPrice random \<and>
   calculateProbabilityOfProfit exp64 opts currentPrice random \<le> 100"
  using pop_loop_le [of exp64 opts currentPrice random]
  by (simp add: calculateProbabilityOfProfit_def)

lemma pop_Nil: "calculateProbabilityOfProfit exp64 [] currentPrice random = 0"
  by (simp add: calculateProbabilityOfProfit_def pop_loop_count totalPayoff64_Nil js_gt_def)

text \<open>
  Claim C4. \<^verbatim>\<open>calculateProbabilityOfProfit\<close> runs the trials 0 to 999; trial \<open>i\<close> reads the
  single variate \<open>random i\<close>, forms the price \<open>spot * exp ((U - 0.5) * 0.20 * sqrt (30/365) * 2)\<close>
  and counts when the total payoff there is greater than 0. The result is 100 times the
  count over 1000, and lies between 0 and 100. The price, the payoff and the comparison
  are those of the program's arithmetic, binary64, for whatever function \<open>exp64\<close> the
  engine computes as \<^verbatim>\<open>Math.exp\<close>.
\<close>

theorem probabilityOfProfit_is_trial_share:
  "calculateProbabilityOfProfit exp64 opts spot random =
     100 * real (length (filter
        (\<lambda>i. js_gt
           (spec_totalPayoffAt64 opts
              (round64 (Num spot *
                 exp64 (round64 (round64 (round64 (round64 (Num (random i) - Num 0.5)
                                                    * Num (binary64 0.20))
                                           * round64 (Math_sqrt (round64 (Num 30 / Num 365))))
                                 * Num 2)))))
           (Num 0))
        [0..<1000])) / 1000
   \<and> 0 \<le> calculateProbabilityOfProfit exp64 opts spot random
   \<and> calculateProbabilityOfProfit exp64 opts spot random \<le> 100"
proof -
  have "pop_loop exp64 opts spot random 0 0 =
      length (filter
        (\<lambda>i. js_gt
           (spec_totalPayoffAt64 opts
              (round64 (Num spot *
                 exp64 (round64 (round64 (round64 (round64 (Num (random i) - Num 0.5)
                                                    * Num (binary64 0.20))
                                           * round64 (Math_sqrt (round64 (Num 30 / Num 365))))
                                 * Num 2)))))
           (Num 0))
        [0..<1000])"
    by (simp add: pop_loop_count totalPayoff64_spec randomPrice64_def)
  then have "calculateProbabilityOfProfit exp64 opts spot random =
     100 * real (length (filter
        (\<lambda>i. js_gt
           (spec_totalPayoffAt64 opts
              (round64 (Num spot *
                 exp64 (round64 (round64 (round64 (round64 (Num (random i) - Num 0.5)
                                                    * Num (binary64 0.20))
                                           * round64 (Math_sqrt (round64 (Num 30 / Num 365))))
                                 * Num 2)))))
           (Num 0))
        [0..<1000])) / 1000"
    by (simp add: calculateProbabilityOfProfit_def)
  with pop_bounds [of exp64 opts spot random] show ?thesis by simp
qed

subsection \<open>The profit test at the edge of its threshold\<close>

text \<open>
  The test of a trial is the one the program computes. For a call bought at 150 for 0.03
  and three calls sold at 160 for 0.01 each, the payoff at a price below 150 is
  \<open>3 * 0.01 - 0.03\<close>, which the program computes as 0: it does not count the trial.
  The language fixes \<^verbatim>\<open>Math.exp(0)\<close> to 1.
\<close>

lemma sqrt_timeToExpiry64_finite:
  "round64 (Math_sqrt (round64 (Num 30 / Num 365)))
     = Num (binary64 (sqrt (740317746965013 / 9007199254740992)))"
proof -
  have "fl64 (30 / 365) = Num (binary64 (30 / 365))"
    by (rule fl64_unit) simp_all
  then have "fl64 (30 / 365) = Num (740317746965013 / 9007199254740992)"
    by (simp only: timeToExpiry64)
  then have "round64 (Num 30 / Num 365) = Num (740317746965013 / 9007199254740992)"
    by simp
  moreover have "sqrt (740317746965013 / 9007199254740992) \<le> 1"
    by (simp add: real_sqrt_le_1_iff)
  ultimately show ?thesis
    using fl64_unit [of "sqrt (740317746965013 / 9007199254740992)"] by simp
qed

text \<open>At the variate 0.5 the exponent is 0, and the price of the trial is the spot.\<close>

lemma randomPrice64_half:
  assumes "exp64 (Num 0) = Num 1"
  shows "randomPrice64 exp64 140 (random_half i) = Num 140"
  unfolding randomPrice64_def Let_def sqrt_timeToExpiry64_finite random_half_def
  using assms fl64_140 by simp

lemma spread03_payoff64:
  assumes "p \<le> 150"
  shows "totalPayoff64 spread03 (Num p) = Num 0"
proof -
  have 1: "round64 (optionPayoff64 (longCall150 (binary64 0.03)) (Num p)
              * Num (quantity (longCall150 (binary64 0.03))))
            = Num (- (1080863910568919 / 36028797018963968))"
    using longCall150_payoff64 [OF assms, of "binary64 0.03"] fl64_neg_b03
    by (simp only: b03)
  have 2: "round64 (optionPayoff64 shortCalls160 (Num p) * Num (quantity shortCalls160))
            = Num (1080863910568919 / 36028797018963968)"
    using assms by (intro shortCalls160_payoff64) simp
  show ?thesis
    unfolding totalPayoff64_def spread03_def foldl.simps 1 2
    using fl64_neg_b03 by simp
qed

lemma spread03_eq:
  "spread03 = [longCall150 (1080863910568919 / 36028797018963968), shortCalls160]"
  by (simp only: spread03_def b03)

lemma spread03_payoff:
  "p \<le> 150 \<Longrightarrow> spec_totalPayoffAt spread03 p = 1 / 576460752303423488"
  unfolding spec_totalPayoffAt_def spread03_eq
  by (simp add: longCall150_fields shortCalls160_fields)

text \<open>
  Below the lower strike the second spread pays \<open>3 * 0.01 - 0.03\<close>, which the program
  computes as 0 and which is \<open>2\<^sup>-\<^sup>5\<^sup>9\<close> without rounding: the program counts no trial at
  such a price.
\<close>

lemma spread03_pop_below:
  assumes "\<And>i. \<exists>p\<le>150. randomPrice64 exp64 currentPrice (random i) = Num p"
  shows "calculateProbabilityOfProfit exp64 spread03 currentPrice random = 0"
proof -
  have "totalPayoff64 spread03 (randomPrice64 exp64 currentPrice (random j)) = Num 0" for j
    using assms [of j] by (auto simp: spread03_payoff64)
  then show ?thesis
    by (simp add: calculateProbabilityOfProfit_def pop_loop_count js_gt_def)
qed

lemma spread03_pop:
  assumes "exp64 (Num 0) = Num 1"
  shows "calculateProbabilityOfProfit exp64 spread03 140 random_half = 0"
    and "0 < spec_totalPayoffAt spread03 140"
proof -
  show "calculateProbabilityOfProfit exp64 spread03 140 random_half = 0"
    by (rule spread03_pop_below) (simp add: randomPrice64_half [of exp64, OF assms])
  show "0 < spec_totalPayoffAt spread03 140"
    by (simp add: spread03_payoff)
qed

lemma nearest_exp_zero: "nearest_exp (Num 0) = Num 1"
  by (simp add: nearest_exp_def fl64_1)

section \<open>The Greeks\<close>

text \<open>The code evaluates the polynomial of the error function by Horner's rule.\<close>

lemma horner5:
  fixes t :: real
  shows "(((((a5 * t + a4) * t) + a3) * t + a2) * t + a1) * t
           = a1 * t + a2 * t ^ 2 + a3 * t ^ 3 + a4 * t ^ 4 + a5 * t ^ 5"
  by (simp add: eval_nat_numeral algebra_simps)

lemma erf_denominator: "1 + 0.3275911 * \<bar>x::real\<bar> \<noteq> 0"
proof -
  have "0 \<le> 0.3275911 * \<bar>x\<bar>" by simp
  then show ?thesis by linarith
qed

lemma erf_Num: "erf (Num x) = Num (spec_erf x)"
proof -
  define t where "t = 1 / (1 + 0.3275911 * \<bar>x\<bar>)"
  have t: "Num 1 / (Num 1 + Num 0.3275911 * Math_abs (Num x)) = Num t"
    using erf_denominator [of x] by (simp add: t_def)
  have e: "Math_exp (- Math_abs (Num x) * Math_abs (Num x)) = Num (exp (- (x ^ 2)))"
    by (simp add: power2_eq_square)
  have h: "((((Num 1.061405429 * Num t + Num (- 1.453152027)) * Num t + Num 1.421413741) * Num t
              + Num (- 0.284496736)) * Num t + Num 0.254829592) * Num t
           = Num (0.254829592 * t + (- 0.284496736) * t ^ 2 + 1.421413741 * t ^ 3
               + (- 1.453152027) * t ^ 4 + 1.061405429 * t ^ 5)"
    using horner5 [of "1.061405429" t "- 1.453152027" "1.421413741" "- 0.284496736" "0.254829592"]
    by simp
  show ?thesis
    unfolding erf_def spec_erf_def Let_def t e h t_def [symmetric]
    by simp
qed

lemma normCDF_Num: "normCDF (Num x) = Num (spec_N x)"
  by (simp add: normCDF_def spec_N_def erf_Num)

lemma normPDF_Num: "normPDF (Num x) = Num (spec_n x)"
  by (simp add: normPDF_def spec_n_def power2_eq_square)

lemma bs_closed_form:
  assumes "0 < S" "0 < K" "0 < T" "0 < sigma"
  shows "calculateBlackScholesGreeks (Num S) (Num K) (Num T) (Num r) (Num sigma) ty
           = Num_Greeks (spec_greeksAt S K T r sigma ty)"
proof -
  have nz: "K \<noteq> 0" "sigma * sqrt T \<noteq> 0" "2 * sqrt T \<noteq> 0" "S * sigma * sqrt T \<noteq> 0" "sqrt T \<noteq> 0"
    using assms by simp_all
  have "0 < S / K"
    using assms by simp
  then have lg: "Math_log (Num S / Num K) = Num (ln (S / K))"
    using nz by simp
  have sq: "Math_sqrt (Num T) = Num (sqrt T)"
    using assms by simp
  have d1: "(Math_log (Num S / Num K) + (Num r + Num 0.5 * Num sigma * Num sigma) * Num T)
              / (Num sigma * Num (sqrt T)) = Num (spec_d1 S K T r sigma)"
    unfolding lg using nz by (simp add: spec_d1_def power2_eq_square)
  have d2: "Num (spec_d1 S K T r sigma) - Num sigma * Num (sqrt T) = Num (spec_d2 S K T r sigma)"
    by (simp add: spec_d2_def)
  show ?thesis
    unfolding calculateBlackScholesGreeks_def Let_def d1 d2 sq
    using nz by (cases ty) (simp_all add: Num_Greeks_def normCDF_Num normPDF_Num)
qed

lemma multiplier_Num: "multiplier leg = Num (leg_sign leg * quantity leg)"
  by (simp add: multiplier_def leg_sign_def)

lemma calculateGreeks_step_Num:
  assumes "0 < spot" "0 < strike leg" "0 < leg_volatility leg"
  shows "calculateGreeks_step spot (Num_Greeks g) leg =
     Num_Greeks \<lparr>delta = delta g + delta (spec_legGreeks spot leg) * (leg_sign leg * quantity leg),
                 gamma = gamma g + gamma (spec_legGreeks spot leg) * (leg_sign leg * quantity leg),
                 theta = theta g + theta (spec_legGreeks spot leg) * (leg_sign leg * quantity leg),
                 vega = vega g + vega (spec_legGreeks spot leg) * (leg_sign leg * quantity leg),
                 rho = rho g + rho (spec_legGreeks spot leg) * (leg_sign leg * quantity leg)\<rparr>"
proof -
  have "calculateBlackScholesGreeks (Num spot) (Num (strike leg)) (Num (30 / 365)) (Num 0.05)
              (Num (leg_volatility leg)) (type leg) = Num_Greeks (spec_legGreeks spot leg)"
    unfolding spec_legGreeks_def using assms by (intro bs_closed_form) simp_all
  then have bs: "calculateBlackScholesGreeks (Num spot) (Num (strike leg)) (Num 30 / Num 365)
              (Num 0.05) (Num (case volatility leg of None \<Rightarrow> 0.2 | Some v \<Rightarrow> v)) (type leg)
            = Num_Greeks (spec_legGreeks spot leg)"
    by (simp add: leg_volatility_def)
  show ?thesis
    unfolding calculateGreeks_step_def Let_def bs multiplier_Num
    by (simp add: Num_Greeks_def)
qed

lemma calculateGreeks_foldl:
  assumes "0 < spot" "list_all (\<lambda>leg. 0 < strike leg \<and> 0 < leg_volatility leg) legs"
  shows "foldl (calculateGreeks_step spot) (Num_Greeks g) legs =
     Num_Greeks \<lparr>delta = delta g + delta (spec_aggregateGreeks legs spot),
                 gamma = gamma g + gamma (spec_aggregateGreeks legs spot),
                 theta = theta g + theta (spec_aggregateGreeks legs spot),
                 vega = vega g + vega (spec_aggregateGreeks legs spot),
                 rho = rho g + rho (spec_aggregateGreeks legs spot)\<rparr>"
  using assms(2)
proof (induction legs arbitrary: g)
  case Nil
  show ?case by (simp add: spec_aggregateGreeks_def Num_Greeks_def)
next
  case (Cons leg legs)
  then have leg: "0 < strike leg" "0 < leg_volatility leg"
    and rest: "list_all (\<lambda>leg. 0 < strike leg \<and> 0 < leg_volatility leg) legs" by simp_all
  have "foldl (calculateGreeks_step spot) (Num_Greeks g) (leg # legs)
          = foldl (calculateGreeks_step spot) (calculateGreeks_step spot (Num_Greeks g) leg) legs"
    by simp
  also have "\<dots> = Num_Greeks
      \<lparr>delta = delta g + delta (spec_legGreeks spot leg) * (leg_sign leg * quantity leg)
                 + delta (spec_aggregateGreeks legs spot),
       gamma = gamma g + gamma (spec_legGreeks spot leg) * (leg_sign leg * quantity leg)
                 + gamma (spec_aggregateGreeks legs spot),
       theta = theta g + theta (spec_legGreeks spot leg) * (leg_sign leg * quantity leg)
                 + theta (spec_aggregateGreeks legs spot),
       vega = vega g + vega (spec_legGreeks spot leg) * (leg_sign leg * quantity leg)
                 + vega (spec_aggregateGreeks legs spot),
       rho = rho g + rho (spec_legGreeks spot leg) * (leg_sign leg * quantity leg)
                 + rho (spec_aggregateGreeks legs spot)\<rparr>"
    unfolding calculateGreeks_step_Num [OF assms(1) leg] Cons.IH [OF rest] by simp
  also have "\<dots> = Num_Greeks \<lparr>delta = delta g + delta (spec_aggregateGreeks (leg # legs) spot),
                 gamma = gamma g + gamma (spec_aggregateGreeks (leg # legs) spot),
                 theta = theta g + theta (spec_aggregateGreeks (leg # legs) spot),
                 vega = vega g + vega (spec_aggregateGreeks (leg # legs) spot),
                 rho = rho g + rho (spec_aggregateGreeks (leg # legs) spot)\<rparr>"
    by (simp add: spec_aggregateGreeks_def add.assoc)
  finally show ?case .
qed

lemma calculateGreeks_aggregate:
  assumes "0 < spot" "list_all (\<lambda>leg. 0 < strike leg \<and> 0 < leg_volatility leg) legs"
  shows "calculateGreeks legs spot = Num_Greeks (spec_aggregateGreeks legs spot)"
proof -
  have z: "\<lparr>delta = Num 0, gamma = Num 0, theta = Num 0, vega = Num 0, rho = Num 0\<rparr>
             = Num_Greeks \<lparr>delta = 0, gamma = 0, theta = 0, vega = 0, rho = 0\<rparr>"
    by (simp add: Num_Greeks_def)
  show ?thesis
    unfolding calculateGreeks_def z calculateGreeks_foldl [OF assms]
    by (simp add: Num_Greeks_def)
qed

text \<open>
  Claim C1. For a leg with positive spot, strike, time to expiry and volatility,
  \<^verbatim>\<open>calculateBlackScholesGreeks\<close> returns the Black-Scholes closed form of the
  specification: \<open>d1\<close> and \<open>d2\<close> as stated, call delta \<open>N(d1)\<close>, put delta \<open>N(d1) - 1\<close>, gamma
  \<open>n(d1) / (S sigma sqrt T)\<close>, vega \<open>S n(d1) sqrt T\<close> and the stated theta and rho, with \<open>N\<close>
  from the Abramowitz-Stegun approximation of the error function with the listed
  coefficients, theta divided by 365, vega and rho divided by 100, delta and gamma as they
  are. And for a positive spot and legs with positive strike and volatility,
  \<^verbatim>\<open>calculateGreeks\<close> returns the sum over the legs of these Greeks at \<open>T = 30/365\<close> and
  \<open>r = 0.05\<close>, with the leg's own volatility (0.2 when the leg has none), each multiplied
  by +1 for a bought leg and -1 otherwise, times the quantity.
\<close>

theorem greeks_are_black_scholes:
  "(0 < S \<and> 0 < K \<and> 0 < T \<and> 0 < sigma \<longrightarrow>
      calculateBlackScholesGreeks (Num S) (Num K) (Num T) (Num r) (Num sigma) ty
        = Num_Greeks (spec_greeksAt S K T r sigma ty))
   \<and> (0 < spot \<and> list_all (\<lambda>leg. 0 < strike leg \<and> 0 < leg_volatility leg) legs \<longrightarrow>
      calculateGreeks legs spot = Num_Greeks (spec_aggregateGreeks legs spot))"
  using bs_closed_form [of S K T sigma r ty] calculateGreeks_aggregate [of spot legs]
  by blast

text \<open>The theorem at the long call of the specification's scenario, spot 150.\<close>

theorem greeks_are_black_scholes_witness:
  "(0::real) < 150 \<and> (0::real) < 30 / 365 \<and> (0::real) < 0.2
   \<and> list_all (\<lambda>leg. 0 < strike leg \<and> 0 < leg_volatility leg) [longCall]
   \<and> calculateBlackScholesGreeks (Num 150) (Num 150) (Num (30 / 365)) (Num 0.05) (Num 0.2) Call
        = Num_Greeks (spec_greeksAt 150 150 (30 / 365) 0.05 0.2 Call)
   \<and> calculateGreeks [longCall] 150 = Num_Greeks (spec_aggregateGreeks [longCall] 150)"
proof -
  have legs: "list_all (\<lambda>leg. 0 < strike leg \<and> 0 < leg_volatility leg) [longCall]"
    by (simp add: longCall_def leg_volatility_def)
  show ?thesis
    using legs
      greeks_are_black_scholes [of 150 150 "30 / 365" "0.2" "0.05" Call 150 "[longCall]"]
    by simp
qed

section \<open>The volatility-impact projection\<close>

lemma calculateVolatilityImpact_samples:
  "calculateVolatilityImpact opts spot =
     map (\<lambda>vol. (vol * 100, totalVega opts spot vol))
       [0.10, 0.15, 0.20, 0.25, 0.30, 0.35, 0.40, 0.45, 0.50]"
  by (simp add: calculateVolatilityImpact_def volImpact_loop.simps)

lemma totalVega_closed_form:
  assumes "0 < spot" "list_all (\<lambda>leg. 0 < strike leg) opts" "0 < vol"
  shows "totalVega opts spot vol =
     Num (\<Sum>leg\<leftarrow>opts. vega (spec_greeksAt spot (strike leg) (30 / 365) 0.05 vol (type leg))
                          * (leg_sign leg * quantity leg))"
proof -
  define g where "g = (\<lambda>tot option.
         tot + vega (calculateBlackScholesGreeks (Num spot) (Num (strike option))
                   (Num 30 / Num 365) (Num 0.05) (Num vol) (type option)) * multiplier option)"
  define v where "v = (\<lambda>leg. vega (spec_greeksAt spot (strike leg) (30 / 365) 0.05 vol (type leg))
                          * (leg_sign leg * quantity leg))"
  have step: "g (Num a) leg = Num (a + v leg)" if "0 < strike leg" for a leg
  proof -
    have "calculateBlackScholesGreeks (Num spot) (Num (strike leg)) (Num (30 / 365)) (Num 0.05)
            (Num vol) (type leg)
          = Num_Greeks (spec_greeksAt spot (strike leg) (30 / 365) 0.05 vol (type leg))"
      using assms(1) that assms(3) by (intro bs_closed_form) simp_all
    then show ?thesis
      by (simp add: g_def v_def Num_Greeks_def multiplier_Num)
  qed
  have fold: "foldl g (Num a) opts = Num (a + (\<Sum>leg\<leftarrow>opts. v leg))" for a
    using assms(2) by (induction opts arbitrary: a) (simp_all add: step add.assoc)
  have "totalVega opts spot vol = foldl g (Num 0) opts"
    unfolding totalVega_def g_def ..
  also have "\<dots> = Num (\<Sum>leg\<leftarrow>opts. v leg)"
    unfolding fold by simp
  finally show ?thesis
    unfolding v_def .
qed

lemma vol_start_eq: "vol_start = 3602879701896397 / 36028797018963968"
  unfolding vol_start_def
  by (subst binary64_in_binade [of "- 4"])
    (simp_all add: powr_neg_numeral round_even_def)

lemma vol_step_eq: "vol_step = 3602879701896397 / 72057594037927936"
  unfolding vol_step_def
  by (subst binary64_in_binade [of "- 5"])
    (simp_all add: powr_neg_numeral round_even_def)

lemma vol_bound_eq: "vol_bound = 1 / 2"
  unfolding vol_bound_def
  by (subst binary64_in_binade [of "- 1"])
    (simp_all add: powr_neg_numeral round_even_def)

lemma vol64_step1:
  "binary64 (3602879701896397 / 36028797018963968 + vol_step) = 1351079888211149 / 9007199254740992"
  unfolding vol_step_eq
  by (subst binary64_in_binade [of "- 3"])
    (simp_all add: powr_neg_numeral round_even_def)

lemma vol64_step2:
  "binary64 (1351079888211149 / 9007199254740992 + vol_step) = 3602879701896397 / 18014398509481984"
  unfolding vol_step_eq
  by (subst binary64_in_binade [of "- 3"])
    (simp_all add: powr_neg_numeral round_even_def)

lemma vol64_step3:
  "binary64 (3602879701896397 / 18014398509481984 + vol_step) = 1 / 4"
  unfolding vol_step_eq
  by (subst binary64_in_binade [of "- 2"])
    (simp_all add: powr_neg_numeral round_even_def)

lemma vol64_step4:
  "binary64 (1 / 4 + vol_step) = 5404319552844595 / 18014398509481984"
  unfolding vol_step_eq
  by (subst binary64_in_binade [of "- 2"])
    (simp_all add: powr_neg_numeral round_even_def)

lemma vol64_step5:
  "binary64 (5404319552844595 / 18014398509481984 + vol_step) = 3152519739159347 / 9007199254740992"
  unfolding vol_step_eq
  by (subst binary64_in_binade [of "- 2"])
    (simp_all add: powr_neg_numeral round_even_def)

lemma vol64_step6:
  "binary64 (3152519739159347 / 9007199254740992 + vol_step) = 7205759403792793 / 18014398509481984"
  unfolding vol_step_eq
  by (subst binary64_in_binade [of "- 2"])
    (simp_all add: powr_neg_numeral round_even_def)

lemma vol64_step7:
  "binary64 (7205759403792793 / 18014398509481984 + vol_step) = 2026619832316723 / 4503599627370496"
  unfolding vol_step_eq
  by (subst binary64_in_binade [of "- 2"])
    (simp_all add: powr_neg_numeral round_even_def)

lemma vol64_step8:
  "binary64 (2026619832316723 / 4503599627370496 + vol_step) = 9007199254740991 / 18014398509481984"
  unfolding vol_step_eq
  by (subst binary64_in_binade [of "- 2"])
    (simp_all add: powr_neg_numeral round_even_def)

lemma vol64_step9:
  "binary64 (9007199254740991 / 18014398509481984 + vol_step) = 4953959590107545 / 9007199254740992"
  unfolding vol_step_eq
  by (subst binary64_in_binade [of "- 1"])
    (simp_all add: powr_neg_numeral round_even_def)

lemma volatility_loop64_samples:
  "volatility_loop64 vol_start [] = Some [3602879701896397 / 36028797018963968,
     1351079888211149 / 9007199254740992,
     3602879701896397 / 18014398509481984,
     1 / 4,
     5404319552844595 / 18014398509481984,
     3152519739159347 / 9007199254740992,
     7205759403792793 / 18014398509481984,
     2026619832316723 / 4503599627370496,
     9007199254740991 / 18014398509481984]"
  by (simp add: volatility_loop64.simps vol_start_eq vol_bound_eq
      vol64_step1 vol64_step2 vol64_step3 vol64_step4 vol64_step5 vol64_step6 vol64_step7
      vol64_step8 vol64_step9)

text \<open>In binary64 the loop body runs nine times too, at values within \<open>1 / 2 ^ 54\<close> of the
  decimal ones.\<close>

lemma volatility_loop64_near_decimal:
  "\<exists>vols. volatility_loop64 vol_start [] = Some vols \<and> length vols = 9 \<and>
     list_all2 (\<lambda>v d. \<bar>v - d\<bar> \<le> 1 / 2 ^ 54) vols
       [0.10, 0.15, 0.20, 0.25, 0.30, 0.35, 0.40, 0.45, 0.50]"
  by (simp add: volatility_loop64_samples)

text \<open>
  Claim C9. \<^verbatim>\<open>calculateVolatilityImpact\<close> returns nine points, for the volatilities 0.10,
  0.15, \<dots>, 0.50 in this order; the point for a volatility holds the volatility times 100
  and the vega accumulated over the legs by \<^verbatim>\<open>calculateBlackScholesGreeks\<close> at the given
  spot, 30/365 years and rate 0.05, which for a positive spot and positive strikes is
  the weighted sum of the closed-form vegas at that volatility.
\<close>

theorem volatilityImpact_has_nine_samples:
  "calculateVolatilityImpact opts spot =
     map (\<lambda>vol. (vol * 100, totalVega opts spot vol))
       [0.10, 0.15, 0.20, 0.25, 0.30, 0.35, 0.40, 0.45, 0.50]
   \<and> length (calculateVolatilityImpact opts spot) = 9
   \<and> (0 < spot \<and> list_all (\<lambda>leg. 0 < strike leg) opts \<and> 0 < vol \<longrightarrow>
        totalVega opts spot vol =
          Num (\<Sum>leg\<leftarrow>opts. vega (spec_greeksAt spot (strike leg) (30 / 365) 0.05 vol (type leg))
                               * (leg_sign leg * quantity leg)))"
  using totalVega_closed_form [of spot opts vol]
  by (simp add: calculateVolatilityImpact_samples)

text \<open>The theorem at the long call, spot 150 and volatility 0.5.\<close>

theorem volatilityImpact_has_nine_samples_witness:
  "(0::real) < 150 \<and> list_all (\<lambda>leg. 0 < strike leg) [longCall] \<and> (0::real) < 0.5
   \<and> length (calculateVolatilityImpact [longCall] 150) = 9
   \<and> last (calculateVolatilityImpact [longCall] 150) = (50, totalVega [longCall] 150 0.5)
   \<and> totalVega [longCall] 150 0.5 =
        Num (vega (spec_greeksAt 150 150 (30 / 365) 0.05 0.5 Call))"
proof -
  have legs: "list_all (\<lambda>leg. 0 < strike leg) [longCall]"
    by (simp add: longCall_def)
  have leg: "strike longCall = 150" "type longCall = Call" "leg_sign longCall * quantity longCall = 1"
    by (simp_all add: longCall_def leg_sign_def)
  show ?thesis
    using legs volatilityImpact_has_nine_samples [of "[longCall]" 150 "0.5"]
    by (simp add: leg)
qed

section \<open>The time-decay projection\<close>

lemma normPDF_special:
  "d = NaN \<or> d = PosInf \<or> d = NegInf \<Longrightarrow> normPDF d = NaN \<or> normPDF d = Num 0"
  by (auto simp: normPDF_def divide_jsnum_def)

text \<open>
  At \<open>T = 0\<close> the denominator \<^verbatim>\<open>sigma * Math.sqrt(T)\<close> of \<open>d1\<close> is zero, so \<open>d1\<close> is infinite
  or \<^verbatim>\<open>NaN\<close>; the density at it is 0 or \<^verbatim>\<open>NaN\<close>, and the first term of theta divides that
  by \<^verbatim>\<open>2 * Math.sqrt(T)\<close>, zero again: theta is \<^verbatim>\<open>NaN\<close> whatever the other arguments are.
\<close>

lemma theta_at_expiry:
  "theta (calculateBlackScholesGreeks (Num S) (Num K) (Num 0) r (Num sigma) ty) = NaN"
proof -
  have sq: "Math_sqrt (Num 0) = Num 0" by simp
  define d1 where
    "d1 = (Math_log (Num S / Num K) + (r + Num 0.5 * Num sigma * Num sigma) * Num 0) / (Num sigma * Num 0)"
  have "d1 = NaN \<or> d1 = PosInf \<or> d1 = NegInf"
    unfolding d1_def using divide_Num_zero by simp
  then have "normPDF d1 = NaN \<or> normPDF d1 = Num 0"
    by (rule normPDF_special)
  then have q: "- (Num S * normPDF d1 * Num sigma) / (Num 2 * Num 0) = NaN"
    by (auto simp: divide_jsnum_def)
  have "theta (calculateBlackScholesGreeks (Num S) (Num K) (Num 0) r (Num sigma) ty)
          = (if ty = Call
             then - (Num S * normPDF d1 * Num sigma) / (Num 2 * Num 0)
                    - r * Num K * Math_exp (- r * Num 0) * normCDF (d1 - Num sigma * Num 0)
             else - (Num S * normPDF d1 * Num sigma) / (Num 2 * Num 0)
                    + r * Num K * Math_exp (- r * Num 0) * normCDF (- (d1 - Num sigma * Num 0)))
            / Num 365"
    unfolding calculateBlackScholesGreeks_def Let_def sq d1_def by simp
  also have "\<dots> = NaN"
    unfolding q by simp
  finally show ?thesis .
qed

text \<open>
  At \<open>sigma = 0\<close> the denominators \<^verbatim>\<open>sigma * Math.sqrt(T)\<close> of \<open>d1\<close> and
  \<^verbatim>\<open>S * sigma * Math.sqrt(T)\<close> of gamma are zero: gamma is \<^verbatim>\<open>NaN\<close>. \<^verbatim>\<open>calculateGreeks\<close> passes a
  volatility of 0 on as it is; \<^verbatim>\<open>calculateTimeDecay\<close> replaces it.
\<close>

lemma gamma_at_zero_volatility:
  "gamma (calculateBlackScholesGreeks (Num S) (Num K) (Num T) r (Num 0) ty) = NaN"
proof -
  define q where "q = Math_sqrt (Num T)"
  have q: "q = NaN \<or> (\<exists>s. q = Num s)"
    by (simp add: q_def)
  then have z: "Num 0 * q = NaN \<or> Num 0 * q = Num 0"
    by auto
  define d1 where
    "d1 = (Math_log (Num S / Num K) + (r + Num 0.5 * Num 0 * Num 0) * Num T) / (Num 0 * q)"
  have "d1 = NaN \<or> d1 = PosInf \<or> d1 = NegInf"
  proof (cases "Num 0 * q = NaN")
    case True
    then show ?thesis by (simp add: d1_def)
  next
    case False
    with z have "Num 0 * q = Num 0" by simp
    then show ?thesis
      unfolding d1_def by (simp only: divide_Num_zero)
  qed
  then have pdf: "normPDF d1 = NaN \<or> normPDF d1 = Num 0"
    by (rule normPDF_special)
  have den: "Num S * Num 0 * q = NaN \<or> Num S * Num 0 * q = Num 0"
    using q by auto
  have "gamma (calculateBlackScholesGreeks (Num S) (Num K) (Num T) r (Num 0) ty)
          = normPDF d1 / (Num S * Num 0 * q)"
    unfolding calculateBlackScholesGreeks_def Let_def d1_def q_def by simp
  also have "\<dots> = NaN"
    using pdf den by (auto simp: divide_jsnum_def)
  finally show ?thesis .
qed

lemma foldl_NaN: "(\<And>x. g NaN x = NaN) \<Longrightarrow> foldl g NaN xs = NaN"
  by (induction xs) simp_all

lemma totalTheta_at_expiry:
  assumes "opts \<noteq> []"
  shows "totalTheta opts currentPrice (Num 0) = NaN"
proof -
  define g where "g = (\<lambda>tot option.
         tot + theta (calculateBlackScholesGreeks (Num currentPrice) (Num (strike option))
                   (Num 0) (Num 0.05) (Num (timeDecay_volatility option)) (type option))
               * multiplier option)"
  have g: "g tot x = NaN" for tot x
    unfolding g_def theta_at_expiry by simp
  obtain a list where opts: "opts = a # list"
    using assms by (cases opts) auto
  have "totalTheta opts currentPrice (Num 0) = foldl g (g (Num 0) a) list"
    unfolding totalTheta_def g_def opts by simp
  also have "\<dots> = NaN"
    by (simp add: g foldl_NaN)
  finally show ?thesis .
qed

lemma timeDecay_loop_map:
  "- 1 \<le> days \<Longrightarrow>
   timeDecay_loop opts currentPrice days acc =
     acc @ map (timeDecay_point opts currentPrice) (rev [0..days])"
proof (induction opts currentPrice days acc rule: timeDecay_loop.induct)
  case (1 opts currentPrice days timeDecayData)
  show ?case
  proof (cases "0 \<le> days")
    case True
    then have r: "rev [0..days] = days # rev [0..days - 1]"
      by (simp add: upto_rec2)
    show ?thesis
      using True "1.IH" by (subst timeDecay_loop.simps) (simp add: r timeDecay_point_def)
  next
    case False
    with "1.prems" have "days = - 1" by simp
    then show ?thesis by (subst timeDecay_loop.simps) simp
  qed
qed

lemma calculateTimeDecay_map:
  "calculateTimeDecay opts currentPrice = map (timeDecay_point opts currentPrice) (rev [0..30])"
  by (simp add: calculateTimeDecay_def timeDecay_loop_map)

lemma length_calculateTimeDecay: "length (calculateTimeDecay opts currentPrice) = 31"
  by (simp add: calculateTimeDecay_map)

lemma last_calculateTimeDecay:
  "last (calculateTimeDecay opts currentPrice) = (30, totalTheta opts currentPrice (Num 0))"
proof -
  have "rev [0..30::int] = rev [1..30] @ [0]"
    by (simp add: upto_rec1)
  then show ?thesis
    by (simp add: calculateTimeDecay_map timeDecay_point_def)
qed

text \<open>The last point of the time-decay series of any strategy with a leg.\<close>

lemma timeDecay_last_NaN:
  "opts \<noteq> [] \<Longrightarrow> last (calculateTimeDecay opts currentPrice) = (30, NaN)"
  by (simp add: last_calculateTimeDecay totalTheta_at_expiry)

text \<open>
  Claim C6 says that the Greeks formula is guarded at \<open>T = 0\<close> and \<open>sigma = 0\<close> and that
  the time-decay series has a theta free of \<^verbatim>\<open>NaN\<close> at each of its 31 points. The formula has
  no guard, and the loop of \<^verbatim>\<open>calculateTimeDecay\<close> ends at \<^verbatim>\<open>days = 0\<close>: for the long call
  at spot 150 the series has 31 points and the theta of the last one is \<^verbatim>\<open>NaN\<close>.
\<close>

theorem timeDecay_ends_in_NaN:
  "length (calculateTimeDecay [longCall] 150) = 31
   \<and> last (calculateTimeDecay [longCall] 150) = (30, NaN)"
  by (simp add: length_calculateTimeDecay timeDecay_last_NaN)

text \<open>Before expiry the accumulated theta is the weighted sum of the closed-form thetas.\<close>

lemma totalTheta_closed_form:
  assumes "0 < spot" "list_all (\<lambda>leg. 0 < strike leg \<and> 0 < timeDecay_volatility leg) opts" "0 < T"
  shows "totalTheta opts spot (Num T) =
     Num (\<Sum>leg\<leftarrow>opts.
            theta (spec_greeksAt spot (strike leg) T 0.05 (timeDecay_volatility leg) (type leg))
            * (leg_sign leg * quantity leg))"
proof -
  define g where "g = (\<lambda>tot option.
         tot + theta (calculateBlackScholesGreeks (Num spot) (Num (strike option))
                   (Num T) (Num 0.05) (Num (timeDecay_volatility option)) (type option))
               * multiplier option)"
  define v where "v = (\<lambda>leg.
      theta (spec_greeksAt spot (strike leg) T 0.05 (timeDecay_volatility leg) (type leg))
      * (leg_sign leg * quantity leg))"
  have step: "g (Num a) leg = Num (a + v leg)"
    if "0 < strike leg \<and> 0 < timeDecay_volatility leg" for a leg
  proof -
    have "calculateBlackScholesGreeks (Num spot) (Num (strike leg)) (Num T) (Num 0.05)
            (Num (timeDecay_volatility leg)) (type leg)
          = Num_Greeks (spec_greeksAt spot (strike leg) T 0.05 (timeDecay_volatility leg) (type leg))"
      using assms(1) that assms(3) by (intro bs_closed_form) simp_all
    then show ?thesis
      by (simp add: g_def v_def Num_Greeks_def multiplier_Num)
  qed
  have fold: "foldl g (Num a) opts = Num (a + (\<Sum>leg\<leftarrow>opts. v leg))" for a
    using assms(2) by (induction opts arbitrary: a) (simp_all add: step add.assoc)
  have "totalTheta opts spot (Num T) = foldl g (Num 0) opts"
    unfolding totalTheta_def g_def ..
  also have "\<dots> = Num (\<Sum>leg\<leftarrow>opts. v leg)"
    unfolding fold by simp
  finally show ?thesis
    unfolding v_def .
qed

lemma rev_upto_nth: "i \<le> 30 \<Longrightarrow> rev [0..30::int] ! i = 30 - int i"
proof -
  assume i: "i \<le> 30"
  have "rev [0..30::int] ! i = [0..30] ! (31 - Suc i)"
    using i by (simp add: rev_nth)
  also have "\<dots> = 0 + int (31 - Suc i)"
    using i by (intro nth_upto) simp
  finally show ?thesis using i by simp
qed

lemma calculateTimeDecay_nth:
  "i \<le> 30 \<Longrightarrow> calculateTimeDecay opts currentPrice ! i =
     (real i, totalTheta opts currentPrice (Num (real (30 - i)) / Num 365))"
  by (simp add: calculateTimeDecay_map rev_upto_nth timeDecay_point_def of_nat_diff)

text \<open>
  Claim C6, amended. \<^verbatim>\<open>calculateBlackScholesGreeks\<close> has no guard for \<open>T = 0\<close> or
  \<open>sigma = 0\<close>; the one policy of the time-decay projector is its volatility,
  \<^verbatim>\<open>option.volatility || 0.2\<close>. The projector returns 31 points, and at each of the first 30
  (30 down to 1 days remaining, \<open>i\<close> days elapsed) the theta is a finite number: for a
  positive spot and legs with a positive strike and a volatility that is absent or not
  negative, it is the weighted sum over the legs of the closed-form theta at
  \<open>T = (30 - i) / 365\<close> and \<open>r = 0.05\<close>.
\<close>

theorem timeDecay_finite_before_expiry:
  "length (calculateTimeDecay opts currentPrice) = 31
   \<and> (0 < currentPrice
        \<and> list_all (\<lambda>leg. 0 < strike leg \<and> 0 < timeDecay_volatility leg) opts
        \<and> i < 30 \<longrightarrow>
      calculateTimeDecay opts currentPrice ! i =
        (real i,
         Num (\<Sum>leg\<leftarrow>opts.
               theta (spec_greeksAt currentPrice (strike leg) (real (30 - i) / 365) 0.05
                        (timeDecay_volatility leg) (type leg))
               * (leg_sign leg * quantity leg))))"
proof -
  have "calculateTimeDecay opts currentPrice ! i =
        (real i,
         Num (\<Sum>leg\<leftarrow>opts.
               theta (spec_greeksAt currentPrice (strike leg) (real (30 - i) / 365) 0.05
                        (timeDecay_volatility leg) (type leg))
               * (leg_sign leg * quantity leg)))"
    if h: "0 < currentPrice"
      "list_all (\<lambda>leg. 0 < strike leg \<and> 0 < timeDecay_volatility leg) opts" "i < 30"
  proof -
    have T: "0 < real (30 - i) / 365" using h(3) by simp
    have "Num (real (30 - i)) / Num 365 = Num (real (30 - i) / 365)" by simp
    then show ?thesis
      using h(3) totalTheta_closed_form [OF h(1) h(2) T] by (simp add: calculateTimeDecay_nth)
  qed
  then show ?thesis
    by (simp add: length_calculateTimeDecay)
qed

text \<open>The theorem at the long call, spot 150, one day before expiry.\<close>

theorem timeDecay_finite_before_expiry_witness:
  "(0::real) < 150
   \<and> list_all (\<lambda>leg. 0 < strike leg \<and> 0 < timeDecay_volatility leg) [longCall]
   \<and> (29::nat) < 30
   \<and> length (calculateTimeDecay [longCall] 150) = 31
   \<and> calculateTimeDecay [longCall] 150 ! 29 =
        (29, Num (theta (spec_greeksAt 150 150 (1 / 365) 0.05 0.2 Call)))"
proof -
  have legs: "list_all (\<lambda>leg. 0 < strike leg \<and> 0 < timeDecay_volatility leg) [longCall]"
    by (simp add: longCall_def timeDecay_volatility_def)
  have leg: "strike longCall = 150" "type longCall = Call" "timeDecay_volatility longCall = 0.2"
    "leg_sign longCall * quantity longCall = 1"
    by (simp_all add: longCall_def leg_sign_def timeDecay_volatility_def)
  show ?thesis
    using legs timeDecay_finite_before_expiry [of "[longCall]" 150 29]
    by (simp add: leg)
qed

section \<open>The risk/reward ratio and the risk score\<close>















section \<open>The strategy without legs\<close>

lemma calculateMaxProfit_Nil: "calculateMaxProfit [] = 0"
  using calculateMaxProfit_const [of "[]" 0] by (simp add: totalPayoff_Nil)

lemma calculateMaxLoss_Nil: "calculateMaxLoss [] = 0"
  using calculateMaxLoss_const [of "[]" 0] by (simp add: totalPayoff_Nil)

text \<open>
  Claim C5. For a strategy with zero legs the \<^verbatim>\<open>Analysis\<close> component yields the degenerate
  result. The guard \<^verbatim>\<open>strategy.options.length > 0\<close> of its effect does not run the
  analysis and leaves the state as it is, which for a component mounted with this
  strategy is the initial value, with maximum profit 0, maximum loss 0, no breakeven
  price and probability of profit 0; and the component returns the empty container,
  which shows no strategy type. Called on the empty list, \<^verbatim>\<open>calculateMaxProfit\<close>,
  \<^verbatim>\<open>calculateMaxLoss\<close> and \<^verbatim>\<open>calculateProbabilityOfProfit\<close> return 0 as well. Every function
  of the model is total: nothing is raised.
\<close>

theorem empty_strategy_is_guarded:
  "useEffect exp64 emptyStrategy currentPrice random analysisData' = analysisData'
   \<and> Analysis_state exp64 emptyStrategy currentPrice random = initialAnalysisData
   \<and> maxProfit (Analysis_state exp64 emptyStrategy currentPrice random) = 0
   \<and> maxLoss (Analysis_state exp64 emptyStrategy currentPrice random) = 0
   \<and> breakeven (Analysis_state exp64 emptyStrategy currentPrice random) = []
   \<and> probabilityOfProfit (Analysis_state exp64 emptyStrategy currentPrice random) = 0
   \<and> Analysis_render emptyStrategy analysisData' = EmptyContainer
   \<and> calculateMaxProfit [] = 0
   \<and> calculateMaxLoss [] = 0
   \<and> calculateProbabilityOfProfit exp64 [] currentPrice random = 0"
proof -
  have "useEffect exp64 emptyStrategy currentPrice random a = a" for a
    by (simp add: useEffect_def emptyStrategy_def)
  then have "useEffect exp64 emptyStrategy currentPrice random analysisData' = analysisData'"
    and "Analysis_state exp64 emptyStrategy currentPrice random = initialAnalysisData"
    by (simp_all add: Analysis_state_def)
  moreover have "Analysis_render emptyStrategy analysisData' = EmptyContainer"
    by (simp add: Analysis_render_def emptyStrategy_def)
  ultimately show ?thesis
    by (simp add: initialAnalysisData_def calculateMaxProfit_Nil calculateMaxLoss_Nil pop_Nil)
qed

section \<open>Validation of a leg\<close>

text \<open>What \<^verbatim>\<open>validateForm\<close> accepts, and that \<^verbatim>\<open>handleSubmit\<close> hands over a leg exactly
  then.\<close>

lemma validateForm_iff:
  "validateForm fd \<longleftrightarrow>
     0 < strike fd \<and> 0 < quantity fd \<and> 0 < premium fd \<and>
     (\<exists>v. volatility fd = Some v \<and> 0 < v \<and> v \<le> 5)"
  by (auto simp: validateForm_def newErrors_def split: option.splits)

lemma handleSubmit_None_iff:
  "handleSubmit parseFloat parseInt now fd = None \<longleftrightarrow> \<not> validateForm fd"
  by (simp add: handleSubmit_def)

text \<open>
  Claim C8 says that validation fails exactly if the strike or the quantity is not
  positive, the premium is negative or the volatility is outside \<open>(0, 5]\<close>, so that a
  premium of exactly 0 is accepted. The check of the premium is
  \<^verbatim>\<open>!formData.premium || formData.premium < 0\<close>, and \<^verbatim>\<open>!0\<close> is true: the form with premium 0
  and all other fields valid is rejected, under the message that the premium must be 0 or
  greater.
\<close>

theorem zero_premium_is_rejected:
  "newErrors zeroPremiumForm = [(''premium'', ''Premium must be 0 or greater'')]
   \<and> validateForm zeroPremiumForm = False"
  by (simp add: validateForm_def newErrors_def zeroPremiumForm_def)

end
